theory Spec2Isabelle
  imports Complex_Main "HOL-Library.Multiset" "HOL-Library.Sublist"
begin

section \<open>Python values\<close>

text \<open>
  The exceptions that the modelled code can raise. A raise is a value \<open>Inl e\<close> of a
  sum type; a normal result is \<open>Inr v\<close>.
\<close>

datatype exn = KeyError | IndexError | ValueError | TypeError | AttributeError | OverflowError

definition bind_exn :: "exn + 'a \<Rightarrow> ('a \<Rightarrow> exn + 'b) \<Rightarrow> exn + 'b" where
  "bind_exn m f = (case m of Inl e \<Rightarrow> Inl e | Inr v \<Rightarrow> f v)"

text \<open>
  A naive \<open>datetime\<close> is the number of microseconds since a fixed epoch; \<open>date\<close> is the
  number of the calendar day, and \<open>timedelta_days\<close> the length of a number of days.
\<close>

type_synonym datetime = int

definition date :: "datetime \<Rightarrow> int" where
  "date t = t div 86400000000"

definition timedelta_days :: "int \<Rightarrow> int" where
  "timedelta_days n = n * 86400000000"

text \<open>Truthiness of an optional string (\<open>None\<close> and \<open>''\<close> are falsy).\<close>

definition truthy :: "string option \<Rightarrow> bool" where
  "truthy s = (case s of None \<Rightarrow> False | Some x \<Rightarrow> x \<noteq> [])"

section \<open>Floats\<close>

text \<open>
  A Python \<open>float\<close> is an IEEE double: a finite value, which is the real number it
  denotes, one of the two infinities, or \<open>nan\<close>. The two zeros are not told apart,
  and the integer \<open>0\<close> that the code uses for a price or for the savings is the
  float \<open>Finite 0\<close>.
\<close>

datatype pyfloat = NaN | NegInf | Finite real | PosInf

text \<open>
  The order of the type: that of the extended reals, with \<open>nan\<close> put below every other
  value so that the order is linear. Python's own comparison is \<open>py_lt\<close>, which is false
  as soon as one side is \<open>nan\<close> and is the order of the type otherwise.
\<close>

fun float_le :: "pyfloat \<Rightarrow> pyfloat \<Rightarrow> bool" where
  "float_le NaN y = True"
| "float_le x NaN = False"
| "float_le NegInf y = True"
| "float_le x NegInf = False"
| "float_le x PosInf = True"
| "float_le PosInf y = False"
| "float_le (Finite a) (Finite b) = (a \<le> b)"

instantiation pyfloat :: linorder
begin

definition less_eq_pyfloat :: "pyfloat \<Rightarrow> pyfloat \<Rightarrow> bool" where
  "less_eq_pyfloat x y = float_le x y"

definition less_pyfloat :: "pyfloat \<Rightarrow> pyfloat \<Rightarrow> bool" where
  "less_pyfloat x y = (float_le x y \<and> \<not> float_le y x)"

instance
proof
  fix x y z :: pyfloat
  show "(x < y) = (x \<le> y \<and> \<not> y \<le> x)"
    by (simp add: less_eq_pyfloat_def less_pyfloat_def)
  show "x \<le> x"
    by (cases x) (simp_all add: less_eq_pyfloat_def)
  show "x \<le> y \<Longrightarrow> y \<le> z \<Longrightarrow> x \<le> z"
    by (cases x; cases y; cases z) (simp_all add: less_eq_pyfloat_def)
  show "x \<le> y \<Longrightarrow> y \<le> x \<Longrightarrow> x = y"
    by (cases x; cases y) (simp_all add: less_eq_pyfloat_def)
  show "x \<le> y \<or> y \<le> x"
    by (cases x; cases y) (auto simp: less_eq_pyfloat_def)
qed

end

definition py_lt :: "pyfloat \<Rightarrow> pyfloat \<Rightarrow> bool" where
  "py_lt x y = (x \<noteq> NaN \<and> y \<noteq> NaN \<and> x < y)"

text \<open>
  \<open>x - y\<close> on floats. \<open>rnd\<close> is the rounding of a real number to a double: the nearest
  finite double, or an infinity when the magnitude is beyond the range.
\<close>

fun float_sub :: "(real \<Rightarrow> pyfloat) \<Rightarrow> pyfloat \<Rightarrow> pyfloat \<Rightarrow> pyfloat" where
  "float_sub rnd NaN y = NaN"
| "float_sub rnd x NaN = NaN"
| "float_sub rnd (Finite a) (Finite b) = rnd (a - b)"
| "float_sub rnd PosInf PosInf = NaN"
| "float_sub rnd NegInf NegInf = NaN"
| "float_sub rnd PosInf y = PosInf"
| "float_sub rnd NegInf y = NegInf"
| "float_sub rnd (Finite a) PosInf = NegInf"
| "float_sub rnd (Finite a) NegInf = PosInf"

text \<open>
  The two operations of the float library that the model takes as given:
  \<open>float_of_string\<close> is \<open>float(s)\<close> on a string, \<open>None\<close> where it raises
  \<open>ValueError\<close>; \<open>round_double\<close> is the rounding of a real number to a double.
\<close>

record float_ops =
  float_of_string :: "string \<Rightarrow> pyfloat option"
  round_double :: "real \<Rightarrow> pyfloat"

text \<open>
  \<open>min\<close> and \<open>max\<close> over a sequence with first element \<open>p\<close>: the running value is
  replaced when the next element compares strictly below (above) it.
\<close>

definition py_min :: "pyfloat \<Rightarrow> pyfloat list \<Rightarrow> pyfloat" where
  "py_min p ps = fold (\<lambda>x m. if py_lt x m then x else m) ps p"

definition py_max :: "pyfloat \<Rightarrow> pyfloat list \<Rightarrow> pyfloat" where
  "py_max p ps = fold (\<lambda>x m. if py_lt m x then x else m) ps p"

section \<open>The account model\<close>

text \<open>
  Class \<open>User\<close>. The columns \<open>password_hash\<close>, \<open>stripe_customer_id\<close> and
  \<open>premium_expires\<close> have no default and are nullable; \<open>is_premium\<close>,
  \<open>searches_today\<close>, \<open>last_search_reset\<close> and \<open>created_at\<close> have a default that
  the insert fills in.
\<close>

record user =
  user_id :: int
  email :: string
  password_hash :: "string option"
  is_premium :: bool
  stripe_customer_id :: "string option"
  premium_expires :: "datetime option"
  searches_today :: int
  last_search_reset :: datetime
  created_at :: datetime

text \<open>
  The expression \<open>self.is_premium and self.premium_expires > datetime.utcnow()\<close>:
  \<open>and\<close> short-circuits, and comparing \<open>None\<close> with a datetime raises \<open>TypeError\<close>.
\<close>

definition premium_active :: "user \<Rightarrow> datetime \<Rightarrow> exn + bool" where
  "premium_active u now =
     (if is_premium u
      then (case premium_expires u of None \<Rightarrow> Inl TypeError | Some e \<Rightarrow> Inr (now < e))
      else Inr False)"

text \<open>
  \<open>User.can_search\<close>. The clock is read up to three times: \<open>t1\<close> for the date
  comparison, \<open>t2\<close> for the new \<open>last_search_reset\<close>, \<open>t3\<close> for the premium check.
  The result is the returned value (or the exception) and the account as committed.
\<close>

definition can_search :: "datetime \<Rightarrow> datetime \<Rightarrow> datetime \<Rightarrow> user \<Rightarrow> (exn + bool) \<times> user" where
  "can_search t1 t2 t3 u =
     (let u' = (if date (last_search_reset u) < date t1
                then u\<lparr>searches_today := 0, last_search_reset := t2\<rparr>
                else u)
      in case premium_active u' t3 of
           Inl e \<Rightarrow> (Inl e, u')
         | Inr active \<Rightarrow> if active then (Inr True, u') else (Inr (searches_today u' < 5), u'))"

text \<open>\<open>User.increment_search\<close>, with its own reading \<open>t\<close> of the clock.\<close>

definition increment_search :: "datetime \<Rightarrow> user \<Rightarrow> exn + user" where
  "increment_search t u =
     (case premium_active u t of
        Inl e \<Rightarrow> Inl e
      | Inr active \<Rightarrow>
          if \<not> active then Inr (u\<lparr>searches_today := searches_today u + 1\<rparr>) else Inr u)"

section \<open>Parsed JSON and the operations the code applies to it\<close>

text \<open>
  The value that \<open>response.json()\<close> or \<open>request.json\<close> yields. An object is a
  dict, kept as an association list that \<open>map_of\<close> reads. A number is an \<open>int\<close> of
  any size or a \<open>float\<close>.
\<close>

datatype json =
    JNull
  | JBool bool
  | JInt int
  | JFloat pyfloat
  | JStr string
  | JArr "json list"
  | JObj "(string \<times> json) list"

text \<open>\<open>x[key]\<close> with a string key: only a dict accepts it.\<close>

definition py_getitem :: "json \<Rightarrow> string \<Rightarrow> exn + json" where
  "py_getitem x k =
     (case x of
        JObj kvs \<Rightarrow> (case map_of kvs k of None \<Rightarrow> Inl KeyError | Some v \<Rightarrow> Inr v)
      | _ \<Rightarrow> Inl TypeError)"

text \<open>
  \<open>x[0]\<close>: the first element of a list, the first character of a string; a dict built
  from JSON has no key \<open>0\<close>; nothing else can be subscripted.
\<close>

definition py_index0 :: "json \<Rightarrow> exn + json" where
  "py_index0 x =
     (case x of
        JArr xs \<Rightarrow> (case xs of [] \<Rightarrow> Inl IndexError | y # _ \<Rightarrow> Inr y)
      | JStr s \<Rightarrow> (case s of [] \<Rightarrow> Inl IndexError | c # _ \<Rightarrow> Inr (JStr [c]))
      | JObj kvs \<Rightarrow> Inl KeyError
      | _ \<Rightarrow> Inl TypeError)"

text \<open>\<open>x.get(key, default)\<close>: only a dict has the method.\<close>

definition py_get :: "json \<Rightarrow> string \<Rightarrow> json \<Rightarrow> exn + json" where
  "py_get x k d =
     (case x of
        JObj kvs \<Rightarrow> (case map_of kvs k of None \<Rightarrow> Inr d | Some v \<Rightarrow> Inr v)
      | _ \<Rightarrow> Inl AttributeError)"

text \<open>
  \<open>float(x)\<close>: a string is parsed, or is no number (\<open>ValueError\<close>); an \<open>int\<close> is
  rounded to the nearest double, or is too large for one (\<open>OverflowError\<close>); a
  \<open>float\<close> is itself; \<open>True\<close> and \<open>False\<close> are 1 and 0; nothing else has a float.
\<close>

definition py_float :: "float_ops \<Rightarrow> json \<Rightarrow> exn + pyfloat" where
  "py_float fl x =
     (case x of
        JStr s \<Rightarrow> (case float_of_string fl s of None \<Rightarrow> Inl ValueError | Some r \<Rightarrow> Inr r)
      | JInt n \<Rightarrow>
          (case round_double fl (of_int n) of Finite r \<Rightarrow> Inr (Finite r) | _ \<Rightarrow> Inl OverflowError)
      | JFloat r \<Rightarrow> Inr r
      | JBool b \<Rightarrow> Inr (Finite (if b then 1 else 0))
      | _ \<Rightarrow> Inl TypeError)"

text \<open>
  \<open>str.strip()\<close>: the characters that \<open>str.isspace\<close> accepts among the code points
  below 256, removed from both ends.
\<close>

definition py_isspace :: "char \<Rightarrow> bool" where
  "py_isspace c = ((of_char c :: nat) \<in> {9, 10, 11, 12, 13, 28, 29, 30, 31, 32, 133, 160})"

definition strip :: "string \<Rightarrow> string" where
  "strip s = rev (dropWhile py_isspace (rev (dropWhile py_isspace s)))"

text \<open>\<open>data.get(key, '').strip()\<close>: only a string has the method \<open>strip\<close>.\<close>

definition get_stripped :: "json \<Rightarrow> string \<Rightarrow> exn + string" where
  "get_stripped data k =
     bind_exn (py_get data k (JStr []))
       (\<lambda>v. case v of JStr s \<Rightarrow> Inr (strip s) | _ \<Rightarrow> Inl AttributeError)"

section \<open>Offers and the marketplace clients\<close>

text \<open>
  An offer is the dict that a client builds. The keys \<open>shipping\<close> and \<open>image\<close> are
  present in the auction client's offers only, \<open>is_search_link\<close> in the retail
  client's only. Values copied out of the response are kept as JSON.
\<close>

record offer =
  source :: string
  price :: pyfloat
  title :: json
  condition :: json
  url :: json
  shipping :: "json option"
  image_url :: "json option"
  is_search_link :: "bool option"

text \<open>Class \<open>BookPriceFinder\<close>: the two settings read from the environment.\<close>

record finder =
  ebay_api_key :: "string option"
  amazon_tag :: "string option"

text \<open>The outcome of \<open>requests.get(...)\<close> followed by \<open>response.json()\<close>.\<close>

datatype http_result = HttpError | HttpJson json

definition search_term :: "string \<Rightarrow> string option \<Rightarrow> string" where
  "search_term query isbn = (if truthy isbn then the isbn else query)"

definition ebay_params :: "finder \<Rightarrow> string \<Rightarrow> (string \<times> string) list" where
  "ebay_params bf st =
     [(''OPERATION-NAME'', ''findItemsAdvanced''),
      (''SERVICE-VERSION'', ''1.0.0''),
      (''SECURITY-APPNAME'', the (ebay_api_key bf)),
      (''RESPONSE-DATA-FORMAT'', ''JSON''),
      (''REST-PAYLOAD'', []),
      (''keywords'', st),
      (''paginationInput.entriesPerPage'', ''10''),
      (''itemFilter(0).name'', ''ListingType''),
      (''itemFilter(0).value'', ''FixedPrice''),
      (''sortOrder'', ''PricePlusShippingLowest'')]"

text \<open>
  \<open>data.get('findItemsAdvancedResponse', [{}])[0].get('searchResult', [{}])[0].get('item', [])\<close>
\<close>

definition ebay_items :: "json \<Rightarrow> exn + json" where
  "ebay_items data =
     bind_exn (py_get data ''findItemsAdvancedResponse'' (JArr [JObj []])) (\<lambda>a.
     bind_exn (py_index0 a) (\<lambda>b.
     bind_exn (py_get b ''searchResult'' (JArr [JObj []])) (\<lambda>c.
     bind_exn (py_index0 c) (\<lambda>d.
     py_get d ''item'' (JArr [])))))"

text \<open>\<open>float(item['sellingStatus'][0]['currentPrice'][0]['__value__'])\<close>\<close>

definition price_of :: "float_ops \<Rightarrow> json \<Rightarrow> exn + pyfloat" where
  "price_of fl item =
     bind_exn (py_getitem item ''sellingStatus'') (\<lambda>a.
     bind_exn (py_index0 a) (\<lambda>b.
     bind_exn (py_getitem b ''currentPrice'') (\<lambda>c.
     bind_exn (py_index0 c) (\<lambda>d.
     bind_exn (py_getitem d ''__value__'') (\<lambda>v.
     py_float fl v)))))"

text \<open>The body of the inner \<open>try\<close>: the price, then the dict, its values in order.\<close>

definition ebay_offer :: "float_ops \<Rightarrow> json \<Rightarrow> exn + offer" where
  "ebay_offer fl item =
     bind_exn (price_of fl item) (\<lambda>p.
     bind_exn (bind_exn (py_getitem item ''title'') py_index0) (\<lambda>t.
     bind_exn (bind_exn (py_get item ''condition'' (JArr [JObj []])) (\<lambda>a.
               bind_exn (py_index0 a) (\<lambda>b.
               bind_exn (py_get b ''conditionDisplayName'' (JArr [JStr ''Used''])) py_index0))) (\<lambda>c.
     bind_exn (bind_exn (py_getitem item ''viewItemURL'') py_index0) (\<lambda>u.
     bind_exn (bind_exn (py_get item ''shippingInfo'' (JArr [JObj []])) (\<lambda>a.
               bind_exn (py_index0 a) (\<lambda>b.
               bind_exn (py_get b ''shippingServiceCost'' (JArr [JObj []])) (\<lambda>c.
               bind_exn (py_index0 c) (\<lambda>d.
               py_get d ''__value__'' (JStr ''0'')))))) (\<lambda>s.
     bind_exn (bind_exn (py_get item ''galleryURL'' (JArr [JStr []])) py_index0) (\<lambda>i.
     Inr \<lparr>source = ''eBay'', price = p, title = t, condition = c, url = u,
          shipping = Some s, image_url = Some i, is_search_link = None\<rparr>))))))"

text \<open>
  The loop over the listings: \<open>KeyError\<close>, \<open>IndexError\<close> and \<open>ValueError\<close> skip the
  listing (\<open>continue\<close>); any other exception leaves the loop.
\<close>

fun ebay_loop :: "float_ops \<Rightarrow> json list \<Rightarrow> offer list \<Rightarrow> exn + offer list" where
  "ebay_loop fl [] results = Inr results"
| "ebay_loop fl (item # items) results =
     (case ebay_offer fl item of
        Inr r \<Rightarrow> ebay_loop fl items (results @ [r])
      | Inl e \<Rightarrow>
          if e = KeyError \<or> e = IndexError \<or> e = ValueError
          then ebay_loop fl items results
          else Inl e)"

text \<open>
  \<open>items[:5]\<close>, as the sequence the loop runs over: a list gives its first five
  elements, a string its first five characters; nothing else can be sliced.
\<close>

definition py_slice5 :: "json \<Rightarrow> exn + json list" where
  "py_slice5 x =
     (case x of
        JArr xs \<Rightarrow> Inr (take 5 xs)
      | JStr s \<Rightarrow> Inr (map (\<lambda>c. JStr [c]) (take 5 s))
      | _ \<Rightarrow> Inl TypeError)"

text \<open>
  \<open>BookPriceFinder.search_ebay\<close>. The request is the function \<open>http\<close> of the
  parameters sent. The outer \<open>except Exception\<close> turns every exception into \<open>[]\<close>.
\<close>

definition search_ebay ::
  "finder \<Rightarrow> ((string \<times> string) list \<Rightarrow> http_result) \<Rightarrow> float_ops \<Rightarrow>
   string \<Rightarrow> string option \<Rightarrow> offer list" where
  "search_ebay bf http fl query isbn =
     (if \<not> truthy (ebay_api_key bf) then []
      else
        (case http (ebay_params bf (search_term query isbn)) of
           HttpError \<Rightarrow> []
         | HttpJson data \<Rightarrow>
             (case bind_exn (ebay_items data) (\<lambda>items.
                   bind_exn (py_slice5 items) (\<lambda>first5. ebay_loop fl first5 [])) of
                Inl e \<Rightarrow> []
              | Inr results \<Rightarrow> results)))"

text \<open>The inner function \<open>build_amazon_link\<close> and \<open>BookPriceFinder.search_amazon\<close>.\<close>

definition build_amazon_link :: "finder \<Rightarrow> string \<Rightarrow> string" where
  "build_amazon_link bf st =
     (let base_url = ''https://www.amazon.com/s'';
          params = ''?k='' @ map (\<lambda>c. if c = CHR '' '' then CHR ''+'' else c) st;
          params = (if truthy (amazon_tag bf) then params @ ''&tag='' @ the (amazon_tag bf)
                    else params)
      in base_url @ params)"

definition search_amazon :: "finder \<Rightarrow> string \<Rightarrow> string option \<Rightarrow> offer list" where
  "search_amazon bf query isbn =
     [\<lparr>source = ''Amazon'', price = Finite 0, title = JStr (''Search results for: '' @ query),
       condition = JStr ''Various'',
       url = JStr (build_amazon_link bf (search_term query isbn)),
       shipping = None, image_url = None, is_search_link = Some True\<rparr>]"

section \<open>The aggregator\<close>

text \<open>
  The second half of \<open>search_all\<close>, on the concatenated offers: the priced offers
  sorted by \<open>list.sort(key=price)\<close>, a stable sort, then the search links. No priced
  offer has the price \<open>nan\<close>, so the sort compares in the order of the type.
\<close>

definition rank_results :: "offer list \<Rightarrow> offer list" where
  "rank_results all_results =
     (let priced_results = filter (\<lambda>r. py_lt (Finite 0) (price r)) all_results;
          search_links = filter (\<lambda>r. is_search_link r = Some True) all_results
      in sort_key price priced_results @ search_links)"

definition search_all ::
  "finder \<Rightarrow> ((string \<times> string) list \<Rightarrow> http_result) \<Rightarrow> float_ops \<Rightarrow>
   string \<Rightarrow> string option \<Rightarrow> offer list" where
  "search_all bf http fl query isbn =
     (let ebay_results = search_ebay bf http fl query isbn;
          amazon_results = search_amazon bf query isbn
      in rank_results (([] @ ebay_results) @ amazon_results))"

section \<open>The request handlers\<close>

text \<open>
  The savings computed by \<open>search\<close>: \<open>max(...) - min(...)\<close> over the prices
  above 0, a subtraction of floats.
\<close>

definition savings :: "float_ops \<Rightarrow> offer list \<Rightarrow> pyfloat" where
  "savings fl results =
     (if length results > 1
      then (case map price (filter (\<lambda>r. py_lt (Finite 0) (price r)) results) of
              [] \<Rightarrow> Finite 0
            | p # ps \<Rightarrow> float_sub (round_double fl) (py_max p ps) (py_min p ps))
      else Finite 0)"

datatype remaining = Remaining int | Unlimited

definition searches_remaining :: "user \<Rightarrow> remaining" where
  "searches_remaining u =
     (if \<not> is_premium u then Remaining (max 0 (5 - searches_today u)) else Unlimited)"

datatype response =
    Forbidden403
  | BadRequest400
  | Ok200 "offer list" pyfloat remaining
  | Error500 exn

text \<open>
  The handler \<open>search\<close> for the logged-in account \<open>u\<close> and the request body \<open>data\<close>.
  \<open>t1\<close>, \<open>t2\<close>, \<open>t3\<close> are the clock readings of \<open>can_search\<close>, \<open>t4\<close> the one of
  \<open>increment_search\<close>. An exception that leaves the handler is the response
  \<open>Error500\<close>; the account is returned as last committed.
\<close>

definition search ::
  "finder \<Rightarrow> ((string \<times> string) list \<Rightarrow> http_result) \<Rightarrow> float_ops \<Rightarrow>
   datetime \<Rightarrow> datetime \<Rightarrow> datetime \<Rightarrow> datetime \<Rightarrow> json \<Rightarrow> user \<Rightarrow> response \<times> user" where
  "search bf http fl t1 t2 t3 t4 data u =
     (case can_search t1 t2 t3 u of
        (Inl e, u1) \<Rightarrow> (Error500 e, u1)
      | (Inr allowed, u1) \<Rightarrow>
          if \<not> allowed then (Forbidden403, u1)
          else
            (case get_stripped data ''query'' of
               Inl e \<Rightarrow> (Error500 e, u1)
             | Inr query \<Rightarrow>
                 (case get_stripped data ''isbn'' of
                    Inl e \<Rightarrow> (Error500 e, u1)
                  | Inr isbn \<Rightarrow>
                      if query = [] \<and> isbn = [] then (BadRequest400, u1)
                      else
                        (let results = search_all bf http fl query (Some isbn)
                         in case increment_search t4 u1 of
                              Inl e \<Rightarrow> (Error500 e, u1)
                            | Inr u2 \<Rightarrow>
                                (Ok200 results (savings fl results) (searches_remaining u2), u2)))))"

text \<open>
  The handler \<open>signup\<close> on the table of accounts: \<open>pw_hash\<close> is the value of
  \<open>generate_password_hash\<close>, \<open>t\<close> and \<open>t'\<close> the clock readings of the two column
  defaults. The status code is returned with the table.
\<close>

definition signup :: "string \<Rightarrow> string \<Rightarrow> datetime \<Rightarrow> datetime \<Rightarrow> user list \<Rightarrow> nat \<times> user list" where
  "signup em pw_hash t t' store =
     (case find (\<lambda>u. email u = em) store of
        Some u \<Rightarrow> (400, store)
      | None \<Rightarrow>
          (200, store @
            [\<lparr>user_id = int (length store) + 1, email = em, password_hash = Some pw_hash,
              is_premium = False, stripe_customer_id = None, premium_expires = None,
              searches_today = 0, last_search_reset = t, created_at = t'\<rparr>]))"

text \<open>The handler \<open>payment_success\<close> for the logged-in account.\<close>

definition payment_success :: "datetime \<Rightarrow> user \<Rightarrow> user" where
  "payment_success t u = u\<lparr>is_premium := True, premium_expires := Some (t + timedelta_days 30)\<rparr>"

text \<open>
  \<open>User.query.filter_by(email=customer_email).first()\<close> followed by the assignment
  \<open>user.is_premium = False\<close>: the first account with that email is the one changed.
\<close>

fun cancel_premium :: "string \<Rightarrow> user list \<Rightarrow> user list" where
  "cancel_premium em [] = []"
| "cancel_premium em (u # us) =
     (if email u = em then u\<lparr>is_premium := False\<rparr> # us else u # cancel_premium em us)"

datatype webhook_error = InvalidPayload | SignatureVerificationError

text \<open>
  The handler \<open>stripe_webhook\<close>. \<open>ev\<close> is the outcome of
  \<open>stripe.Webhook.construct_event\<close>: one of the two exceptions the handler catches, or
  the event. An embedded email that is not a string names no account.
\<close>

definition stripe_webhook :: "webhook_error + json \<Rightarrow> user list \<Rightarrow> nat \<times> user list" where
  "stripe_webhook ev store =
     (case ev of
        Inl err \<Rightarrow> (400, store)
      | Inr event \<Rightarrow>
          (case py_getitem event ''type'' of
             Inl e \<Rightarrow> (500, store)
           | Inr ty \<Rightarrow>
               if ty = JStr ''customer.subscription.deleted''
               then
                 (case bind_exn (py_getitem event ''data'') (\<lambda>d.
                       bind_exn (py_getitem d ''object'') (\<lambda>ob.
                       py_getitem ob ''customer_email'')) of
                    Inl e \<Rightarrow> (500, store)
                  | Inr customer_email \<Rightarrow>
                      (case customer_email of
                         JStr em \<Rightarrow> (200, cancel_premium em store)
                       | _ \<Rightarrow> (200, store)))
               else (200, store)))"

text \<open>
  The tables of accounts that the handlers can produce from the empty table. A handler
  behind \<open>login_required\<close> acts on one account of the table. \<open>login\<close>, \<open>logout\<close>,
  \<open>dashboard\<close> and \<open>create_checkout_session\<close> change no account.
\<close>

inductive reachable :: "user list \<Rightarrow> bool" where
  empty: "reachable []"
| signup: "reachable store \<Longrightarrow> reachable (snd (signup em pw_hash t t' store))"
| search:
    "reachable store \<Longrightarrow> i < length store \<Longrightarrow>
     reachable (store[i := snd (search bf http fl t1 t2 t3 t4 data (store ! i))])"
| payment_success:
    "reachable store \<Longrightarrow> i < length store \<Longrightarrow>
     reachable (store[i := payment_success t (store ! i)])"
| stripe_webhook: "reachable store \<Longrightarrow> reachable (snd (stripe_webhook ev store))"

section \<open>Example inputs\<close>

text \<open>Concrete accounts, settings and responses on which the theorems are evaluated.\<close>

definition example_user :: "bool \<Rightarrow> datetime option \<Rightarrow> int \<Rightarrow> datetime \<Rightarrow> user" where
  "example_user p e n r =
     \<lparr>user_id = 1, email = ''ada@example.org'', password_hash = Some ''h'', is_premium = p,
      stripe_customer_id = None, premium_expires = e, searches_today = n,
      last_search_reset = r, created_at = 0\<rparr>"

definition example_finder :: "string option \<Rightarrow> finder" where
  "example_finder tag = \<lparr>ebay_api_key = Some ''app-id'', amazon_tag = tag\<rparr>"

text \<open>A listing as the auction marketplace sends it, with the price \<open>v\<close>.\<close>

definition example_listing :: "json \<Rightarrow> json" where
  "example_listing v =
     JObj [(''title'', JArr [JStr ''Calculus'']),
           (''viewItemURL'', JArr [JStr ''https://www.ebay.com/itm/1'']),
           (''sellingStatus'', JArr [JObj [(''currentPrice'', JArr [JObj [(''__value__'', v)]])]])]"

definition example_body :: "json list \<Rightarrow> json" where
  "example_body items =
     JObj [(''findItemsAdvancedResponse'',
            JArr [JObj [(''searchResult'', JArr [JObj [(''item'', JArr items)]])]])]"

text \<open>
  The floats of the strings used: \<open>9.99\<close> is the double nearest to it. The rounding
  keeps every real below \<open>2 ^ 1024\<close> in magnitude, which is right for the reals that
  are doubles, and gives an infinity beyond.
\<close>

definition example_floats :: float_ops where
  "example_floats =
     \<lparr>float_of_string = (\<lambda>s.
        if s = ''12.00'' then Some (Finite 12)
        else if s = ''8.50'' then Some (Finite (17 / 2))
        else if s = ''20.00'' then Some (Finite 20)
        else if s = ''9.99'' then Some (Finite (5623870034678907 / 562949953421312))
        else if s = ''inf'' then Some PosInf
        else None),
      round_double = (\<lambda>x.
        if \<bar>x\<bar> < 2 ^ 1024 then Finite x else if 0 < x then PosInf else NegInf)\<rparr>"

definition example_offer :: "pyfloat \<Rightarrow> offer" where
  "example_offer p =
     \<lparr>source = ''eBay'', price = p, title = JStr ''Calculus'', condition = JStr ''Used'',
      url = JStr ''https://www.ebay.com/itm/1'', shipping = Some (JStr ''0''),
      image_url = Some (JStr []), is_search_link = None\<rparr>"

definition example_link :: "string \<Rightarrow> string \<Rightarrow> offer" where
  "example_link query link =
     \<lparr>source = ''Amazon'', price = Finite 0, title = JStr (''Search results for: '' @ query),
      condition = JStr ''Various'', url = JStr link, shipping = None, image_url = None,
      is_search_link = Some True\<rparr>"

text \<open>A webhook event of the type \<open>ty\<close> for the customer email \<open>em\<close>.\<close>

definition example_event :: "string \<Rightarrow> string \<Rightarrow> json" where
  "example_event ty em =
     JObj [(''type'', JStr ty),
           (''data'', JObj [(''object'', JObj [(''customer_email'', JStr em)])])]"

section \<open>Evaluation rules\<close>

lemmas py_defs = bind_exn_def py_getitem_def py_index0_def py_get_def py_float_def
  py_slice5_def get_stripped_def truthy_def

lemmas client_defs = search_ebay_def ebay_items_def ebay_offer_def price_of_def
  search_amazon_def build_amazon_link_def search_term_def search_all_def rank_results_def

lemmas example_defs = example_user_def example_finder_def example_listing_def
  example_body_def example_floats_def example_offer_def example_link_def example_event_def

lemmas search_defs = search_def can_search_def increment_search_def premium_active_def
  searches_remaining_def date_def strip_def py_isspace_def Let_def

lemmas float_defs = less_eq_pyfloat_def less_pyfloat_def py_lt_def py_min_def py_max_def

section \<open>The accounts the handlers produce\<close>

lemma search_premium_fields:
  "is_premium (snd (search bf http fl t1 t2 t3 t4 data u)) = is_premium u \<and>
   premium_expires (snd (search bf http fl t1 t2 t3 t4 data u)) = premium_expires u"
  by (auto simp: search_def can_search_def increment_search_def Let_def
           split: sum.splits if_splits prod.splits)

lemma cancel_premium_set:
  "v \<in> set (cancel_premium em store) \<Longrightarrow>
   v \<in> set store \<or> (\<exists>u\<in>set store. v = u\<lparr>is_premium := False\<rparr>)"
  by (induction store) (auto split: if_splits)

lemma stripe_webhook_set:
  "v \<in> set (snd (stripe_webhook ev store)) \<Longrightarrow>
   v \<in> set store \<or> (\<exists>u\<in>set store. v = u\<lparr>is_premium := False\<rparr>)"
  by (auto simp: stripe_webhook_def split: sum.splits if_splits json.splits
           dest: cancel_premium_set)

lemma signup_set:
  "v \<in> set (snd (signup em pw_hash t t' store)) \<Longrightarrow> v \<in> set store \<or> \<not> is_premium v"
  by (auto simp: signup_def split: option.splits)

lemma reachable_expiry:
  "reachable store \<Longrightarrow> u \<in> set store \<Longrightarrow> is_premium u \<Longrightarrow> premium_expires u \<noteq> None"
proof (induction arbitrary: u rule: reachable.induct)
  case empty
  then show ?case by simp
next
  case (signup store em pw_hash t t')
  from signup_set [OF signup.prems(1)] signup.prems(2) have "u \<in> set store" by blast
  with signup.IH signup.prems(2) show ?case by blast
next
  case (search store i bf http fl t1 t2 t3 t4 data)
  let ?v = "snd (search bf http fl t1 t2 t3 t4 data (store ! i))"
  from search.prems(1) have "u \<in> set store \<or> u = ?v"
    using set_update_subset_insert [of store i ?v] by auto
  then show ?case
  proof
    assume "u \<in> set store"
    with search.IH search.prems(2) show ?thesis by blast
  next
    assume u: "u = ?v"
    from search.hyps(2) have "store ! i \<in> set store" by simp
    moreover from u search.prems(2) have "is_premium (store ! i)"
      by (simp add: search_premium_fields)
    ultimately have "premium_expires (store ! i) \<noteq> None" by (rule search.IH)
    with u show ?thesis by (simp add: search_premium_fields)
  qed
next
  case (payment_success store i t)
  from payment_success.prems(1)
  have "u \<in> set store \<or> u = payment_success t (store ! i)"
    using set_update_subset_insert [of store i "payment_success t (store ! i)"] by auto
  then show ?case
  proof
    assume "u \<in> set store"
    with payment_success.IH payment_success.prems(2) show ?thesis by blast
  next
    assume "u = payment_success t (store ! i)"
    then show ?thesis by (simp add: payment_success_def)
  qed
next
  case (stripe_webhook store ev)
  from stripe_webhook_set [OF stripe_webhook.prems(1)] stripe_webhook.prems(2)
  have "u \<in> set store" by auto
  with stripe_webhook.IH stripe_webhook.prems(2) show ?case by blast
qed

lemma expiry_no_raise:
  assumes "is_premium u \<longrightarrow> premium_expires u \<noteq> None"
  shows "\<exists>b. fst (can_search t1 t2 t3 u) = Inr b" and "\<exists>u'. increment_search t u = Inr u'"
  using assms
  by (auto simp: can_search_def increment_search_def premium_active_def Let_def)

section \<open>The quota policy\<close>

lemma reachable_search_step:
  assumes "reachable [example_user False None n 50]" and "n < 5"
  shows "reachable [example_user False None (n + 1) 50]"
proof -
  let ?bf = "\<lparr>ebay_api_key = None, amazon_tag = None\<rparr>"
  let ?fl = "\<lparr>float_of_string = (\<lambda>s. None), round_double = Finite\<rparr>"
  have "reachable ([example_user False None n 50]
          [0 := snd (search ?bf (\<lambda>ps. HttpError) ?fl 60 60 60 60 (JObj [(''query'', JStr ''q'')])
                       ([example_user False None n 50] ! 0))])"
    by (rule reachable.search [OF assms(1)]) simp
  moreover have "snd (search ?bf (\<lambda>ps. HttpError) ?fl 60 60 60 60 (JObj [(''query'', JStr ''q'')])
      (example_user False None n 50)) = example_user False None (n + 1) 50"
    using assms(2) by (simp add: search_defs py_defs example_user_def)
  ultimately show ?thesis by simp
qed

lemma reachable_example_free: "reachable [example_user False None 5 50]"
proof -
  have "snd (signup ''ada@example.org'' ''h'' 50 0 []) = [example_user False None 0 50]"
    by (simp add: signup_def example_user_def)
  moreover have "reachable (snd (signup ''ada@example.org'' ''h'' 50 0 []))"
    by (rule reachable.signup) (rule reachable.empty)
  ultimately have "reachable [example_user False None 0 50]" by simp
  from reachable_search_step [OF this] have "reachable [example_user False None 1 50]" by simp
  from reachable_search_step [OF this] have "reachable [example_user False None 2 50]" by simp
  from reachable_search_step [OF this] have "reachable [example_user False None 3 50]" by simp
  from reachable_search_step [OF this] have "reachable [example_user False None 4 50]" by simp
  from reachable_search_step [OF this] show ?thesis by simp
qed

lemma reachable_example_premium:
  "reachable [example_user True (Some 2592000000100) 5 50]"
proof -
  have "reachable ([example_user False None 5 50]
          [0 := payment_success 100 ([example_user False None 5 50] ! 0)])"
    by (rule reachable.payment_success [OF reachable_example_free]) simp
  then show ?thesis
    by (simp add: payment_success_def timedelta_days_def example_user_def)
qed

text \<open>
  C1. For every account of a table that the handlers can produce, \<open>can_search\<close>
  returns true when the premium flag is set and the expiry is strictly after the clock
  reading \<open>t3\<close>, whatever the counter is; for every other such account it returns
  whether \<open>searches_today\<close> is below 5. The counter is the one the check reads, that
  is the account's counter after the day-boundary step of the same call (C2): 0 when
  the date of \<open>last_search_reset\<close> is before the current date, the stored value
  otherwise.
\<close>

theorem can_search_result:
  assumes "reachable store" and "u \<in> set store"
  shows "(is_premium u \<and> (\<exists>e. premium_expires u = Some e \<and> t3 < e) \<longrightarrow>
            fst (can_search t1 t2 t3 u) = Inr True) \<and>
         (\<not> (is_premium u \<and> (\<exists>e. premium_expires u = Some e \<and> t3 < e)) \<longrightarrow>
            fst (can_search t1 t2 t3 u) =
              Inr (searches_today (snd (can_search t1 t2 t3 u)) < 5) \<and>
            searches_today (snd (can_search t1 t2 t3 u)) =
              (if date (last_search_reset u) < date t1 then 0 else searches_today u))"
proof -
  have "is_premium u \<longrightarrow> premium_expires u \<noteq> None"
    using reachable_expiry [OF assms] by blast
  then show ?thesis
    by (auto simp: can_search_def premium_active_def Let_def)
qed

text \<open>
  An account that made 5 searches today may not search, and may search the next day;
  once it has paid it may search with the same 5 on its counter, and after the expiry
  (31 days later) it returns to the count, which the new day has reset.
\<close>

theorem can_search_result_witness:
  "reachable [example_user False None 5 50] \<and>
   fst (can_search 100 100 100 (example_user False None 5 50)) = Inr False \<and>
   fst (can_search 86400000000 86400000000 86400000000 (example_user False None 5 50)) = Inr True \<and>
   reachable [example_user True (Some 2592000000100) 5 50] \<and>
   fst (can_search 100 100 100 (example_user True (Some 2592000000100) 5 50)) = Inr True \<and>
   fst (can_search 2678400000000 2678400000000 2678400000000
          (example_user True (Some 2592000000100) 5 50)) = Inr True"
  using can_search_result [OF reachable_example_free, of "example_user False None 5 50" 100 100 100]
        can_search_result [OF reachable_example_free, of "example_user False None 5 50"
          86400000000 86400000000 86400000000]
        can_search_result [OF reachable_example_premium,
          of "example_user True (Some 2592000000100) 5 50" 100 100 100]
        can_search_result [OF reachable_example_premium,
          of "example_user True (Some 2592000000100) 5 50"
          2678400000000 2678400000000 2678400000000]
        reachable_example_free reachable_example_premium
  by (simp add: example_user_def date_def)

text \<open>
  C2. \<open>can_search\<close> leaves the account with the counter at 0 and \<open>last_search_reset\<close> at
  the clock reading \<open>t2\<close> when the date of \<open>last_search_reset\<close> is strictly before the
  date of the clock reading \<open>t1\<close>, and leaves the account as it was otherwise. Neither
  the counter's value nor the premium fields enter the condition, and the account is
  the same whether the call returns or raises.
\<close>

theorem can_search_reset:
  "snd (can_search t1 t2 t3 u) =
     (if date (last_search_reset u) < date t1
      then u\<lparr>searches_today := 0, last_search_reset := t2\<rparr>
      else u)"
  by (simp add: can_search_def Let_def split: sum.splits)

text \<open>
  One microsecond before midnight against midnight: the counter 9 of a lapsed premium
  account is reset. Midnight against the same day: nothing changes.
\<close>

theorem can_search_reset_witness:
  "snd (can_search 86400000000 86400000001 86400000002
          (example_user True (Some 5) 9 86399999999)) =
     example_user True (Some 5) 0 86400000001 \<and>
   snd (can_search 86400000000 86400000001 86400000002
          (example_user False None 9 86400000000)) =
     example_user False None 9 86400000000"
  using can_search_reset [of 86400000000 86400000001 86400000002
          "example_user True (Some 5) 9 86399999999"]
        can_search_reset [of 86400000000 86400000001 86400000002
          "example_user False None 9 86400000000"]
  by (simp add: example_user_def date_def)

text \<open>
  C8. When the handler \<open>search\<close> answers 403, the account is exactly as it was before
  the request: nothing was incremented, and no reset happened, because the date of
  \<open>last_search_reset\<close> was not before the current date (a reset would have set the
  counter to 0 and the quota check would have succeeded).
\<close>

theorem search_forbidden_no_mutation:
  "fst (search bf http fl t1 t2 t3 t4 data u) = Forbidden403 \<Longrightarrow>
   snd (search bf http fl t1 t2 t3 t4 data u) = u \<and>
   \<not> date (last_search_reset u) < date t1 \<and> 5 \<le> searches_today u"
  by (auto simp: search_def can_search_def premium_active_def Let_def
           split: sum.splits if_splits option.splits prod.splits)

theorem search_forbidden_no_mutation_witness:
  "fst (search (example_finder None) (\<lambda>ps. HttpError) example_floats 100 100 100 100
          (JObj [(''query'', JStr ''calculus'')]) (example_user False None 5 50)) = Forbidden403 \<and>
   snd (search (example_finder None) (\<lambda>ps. HttpError) example_floats 100 100 100 100
          (JObj [(''query'', JStr ''calculus'')]) (example_user False None 5 50)) =
     example_user False None 5 50"
proof -
  have f: "fst (search (example_finder None) (\<lambda>ps. HttpError) example_floats 100 100 100 100
          (JObj [(''query'', JStr ''calculus'')]) (example_user False None 5 50)) = Forbidden403"
    by (simp add: search_defs example_user_def)
  from search_forbidden_no_mutation [OF f] f show ?thesis by simp
qed

section \<open>The aggregator's order\<close>

lemma map_sort_key: "map f (sort_key f xs) = sort (map f xs)"
  by (rule sym, rule properties_for_sort) (simp_all add: sorted_sort_key)

lemma sort_prices_commute:
  "sort (map f (filter Q (xs @ ys))) = sort (map f (filter Q (ys @ xs)))"
  by (rule properties_for_sort) (simp_all add: union_commute)

text \<open>
  C3. For any two lists of offers, the output on their concatenation is a list \<open>P\<close>
  followed by a list \<open>L\<close>: \<open>L\<close> holds the offers with the search-link flag, \<open>P\<close> holds
  exactly the offers with a price above 0, none of them \<open>nan\<close>, in non-decreasing
  order of price, and the offers of any one price stand in \<open>P\<close> in their input order. Concatenating the two
  lists the other way round gives the same sequence of prices and the same offers in
  both parts. \<open>search_all\<close> is this output on the offers of the two clients.
\<close>

theorem rank_results_order:
  "\<exists>P L. rank_results (ebay @ amazon) = P @ L \<and>
     L = filter (\<lambda>r. is_search_link r = Some True) (ebay @ amazon) \<and>
     mset P = mset (filter (\<lambda>r. py_lt (Finite 0) (price r)) (ebay @ amazon)) \<and>
     NaN \<notin> set (map price P) \<and> sorted (map price P) \<and>
     (\<forall>k. filter (\<lambda>r. price r = k) P =
          filter (\<lambda>r. price r = k) (filter (\<lambda>r. py_lt (Finite 0) (price r)) (ebay @ amazon))) \<and>
     (\<exists>P' L'. rank_results (amazon @ ebay) = P' @ L' \<and> map price P' = map price P \<and>
        mset P' = mset P \<and> mset L' = mset L) \<and>
     search_all bf http fl query isbn =
       rank_results (search_ebay bf http fl query isbn @ search_amazon bf query isbn)"
proof -
  let ?pr = "\<lambda>r::offer. py_lt (Finite 0) (price r)"
  let ?fl = "\<lambda>r::offer. is_search_link r = Some True"
  let ?P = "sort_key price (filter ?pr (ebay @ amazon))"
  let ?L = "filter ?fl (ebay @ amazon)"
  let ?P' = "sort_key price (filter ?pr (amazon @ ebay))"
  let ?L' = "filter ?fl (amazon @ ebay)"
  have 1: "rank_results (ebay @ amazon) = ?P @ ?L"
    by (simp add: rank_results_def)
  have 2: "mset ?P = mset (filter ?pr (ebay @ amazon))"
    by simp
  have 3: "sorted (map price ?P)"
    by (rule sorted_sort_key)
  have 9: "NaN \<notin> set (map price ?P)"
    by (auto simp: py_lt_def)
  have 4: "\<forall>k. filter (\<lambda>r. price r = k) ?P = filter (\<lambda>r. price r = k) (filter ?pr (ebay @ amazon))"
    by (simp only: sort_key_stable) simp
  have 5: "rank_results (amazon @ ebay) = ?P' @ ?L'"
    by (simp add: rank_results_def)
  have 6: "map price ?P' = map price ?P"
    by (simp only: map_sort_key sort_prices_commute [of price ?pr amazon ebay])
  have 7: "mset ?P' = mset ?P" "mset ?L' = mset ?L"
    by (simp_all add: union_commute)
  have 8: "search_all bf http fl query isbn =
       rank_results (search_ebay bf http fl query isbn @ search_amazon bf query isbn)"
    by (simp add: search_all_def)
  from 1 2 3 4 5 6 7 8 9 show ?thesis by blast
qed

text \<open>
  Three priced offers, two of them at the same price, and one search link given first:
  the link moves to the end and the two offers at 12 keep their order.
\<close>

theorem rank_results_order_witness:
  "rank_results ([example_link ''q'' ''l'', example_offer (Finite 12) \<lparr>source := ''first''\<rparr>, example_offer (Finite 20)] @
                 [example_offer (Finite 12) \<lparr>source := ''second''\<rparr>, example_offer (Finite 0)]) =
     [example_offer (Finite 12) \<lparr>source := ''first''\<rparr>, example_offer (Finite 12) \<lparr>source := ''second''\<rparr>,
      example_offer (Finite 20)] @ [example_link ''q'' ''l'']"
proof -
  have "rank_results ([example_link ''q'' ''l'', example_offer (Finite 12) \<lparr>source := ''first''\<rparr>, example_offer (Finite 20)] @
                 [example_offer (Finite 12) \<lparr>source := ''second''\<rparr>, example_offer (Finite 0)]) =
     [example_offer (Finite 12) \<lparr>source := ''first''\<rparr>, example_offer (Finite 12) \<lparr>source := ''second''\<rparr>,
      example_offer (Finite 20)] @ [example_link ''q'' ''l'']"
    by (simp add: rank_results_def example_offer_def example_link_def float_defs)
  with rank_results_order [of "[example_link ''q'' ''l'', example_offer (Finite 12) \<lparr>source := ''first''\<rparr>, example_offer (Finite 20)]"
      "[example_offer (Finite 12) \<lparr>source := ''second''\<rparr>, example_offer (Finite 0)]"]
  show ?thesis by simp
qed

section \<open>The savings of a search\<close>

lemma py_min_step: "x \<noteq> NaN \<Longrightarrow> m \<noteq> NaN \<Longrightarrow> (if py_lt x m then x else m) = min x m"
  by (auto simp: py_lt_def min_def)

lemma py_max_step: "x \<noteq> NaN \<Longrightarrow> m \<noteq> NaN \<Longrightarrow> (if py_lt m x then x else m) = max x m"
  by (auto simp: py_lt_def max_def)

lemma min_not_NaN: "x \<noteq> NaN \<Longrightarrow> m \<noteq> NaN \<Longrightarrow> min x m \<noteq> NaN"
  by (simp add: min_def)

lemma max_not_NaN: "x \<noteq> NaN \<Longrightarrow> m \<noteq> NaN \<Longrightarrow> max x m \<noteq> NaN"
  by (simp add: max_def)

lemma fold_py_min:
  "NaN \<notin> set (p # ps) \<Longrightarrow> fold (\<lambda>x m. if py_lt x m then x else m) ps p = fold min ps p"
proof (induction ps arbitrary: p)
  case Nil
  then show ?case by simp
next
  case (Cons x xs)
  then have "x \<noteq> NaN" "p \<noteq> NaN" "NaN \<notin> set xs" by auto
  then have "NaN \<notin> set (min x p # xs)"
    using min_not_NaN [of x p] by simp
  moreover have "(if py_lt x p then x else p) = min x p"
    using \<open>x \<noteq> NaN\<close> \<open>p \<noteq> NaN\<close> by (rule py_min_step)
  ultimately show ?case
    using Cons.IH [of "min x p"] by simp
qed

lemma fold_py_max:
  "NaN \<notin> set (p # ps) \<Longrightarrow> fold (\<lambda>x m. if py_lt m x then x else m) ps p = fold max ps p"
proof (induction ps arbitrary: p)
  case Nil
  then show ?case by simp
next
  case (Cons x xs)
  then have "x \<noteq> NaN" "p \<noteq> NaN" "NaN \<notin> set xs" by auto
  then have "NaN \<notin> set (max x p # xs)"
    using max_not_NaN [of x p] by simp
  moreover have "(if py_lt p x then x else p) = max x p"
    using \<open>x \<noteq> NaN\<close> \<open>p \<noteq> NaN\<close> by (rule py_max_step)
  ultimately show ?case
    using Cons.IH [of "max x p"] by simp
qed

lemma py_min_Min:
  assumes "NaN \<notin> set (p # ps)"
  shows "py_min p ps = Min (set (p # ps))"
  unfolding py_min_def fold_py_min [OF assms] by (simp only: Min.set_eq_fold)

lemma py_max_Max:
  assumes "NaN \<notin> set (p # ps)"
  shows "py_max p ps = Max (set (p # ps))"
  unfolding py_max_def fold_py_max [OF assms] by (simp only: Max.set_eq_fold)

lemma savings_max_min:
  assumes "length results > 1"
  shows "savings fl results =
     (if filter (\<lambda>r. py_lt (Finite 0) (price r)) results = [] then Finite 0
      else float_sub (round_double fl)
             (Max (price ` set (filter (\<lambda>r. py_lt (Finite 0) (price r)) results)))
             (Min (price ` set (filter (\<lambda>r. py_lt (Finite 0) (price r)) results))))"
proof (cases "map price (filter (\<lambda>r. py_lt (Finite 0) (price r)) results)")
  case Nil
  with assms show ?thesis by (simp add: savings_def)
next
  case (Cons p ps)
  then have ne: "filter (\<lambda>r. py_lt (Finite 0) (price r)) results \<noteq> []" by auto
  have img: "price ` set (filter (\<lambda>r. py_lt (Finite 0) (price r)) results) = set (p # ps)"
    using Cons by (metis set_map)
  have "NaN \<notin> price ` set (filter (\<lambda>r. py_lt (Finite 0) (price r)) results)"
    by (auto simp: py_lt_def)
  then have nn: "NaN \<notin> set (p # ps)"
    unfolding img .
  have "savings fl results = float_sub (round_double fl) (py_max p ps) (py_min p ps)"
    using assms Cons by (simp add: savings_def)
  also have "\<dots> = float_sub (round_double fl)
      (Max (price ` set (filter (\<lambda>r. py_lt (Finite 0) (price r)) results)))
      (Min (price ` set (filter (\<lambda>r. py_lt (Finite 0) (price r)) results)))"
    unfolding img by (simp only: py_min_Min [OF nn] py_max_Max [OF nn])
  finally show ?thesis
    using ne by simp
qed

lemma two_elements: "x \<in> set xs \<Longrightarrow> a \<in> set xs \<Longrightarrow> x \<noteq> a \<Longrightarrow> 1 < length xs"
proof (cases xs)
  case Nil
  assume "x \<in> set xs"
  with Nil show ?thesis by simp
next
  case (Cons y ys)
  assume "x \<in> set xs" "a \<in> set xs" "x \<noteq> a"
  with Cons have "ys \<noteq> []" by auto
  with Cons show ?thesis by (cases ys) simp_all
qed

lemma search_all_length:
  assumes "filter (\<lambda>r. py_lt (Finite 0) (price r)) (search_all bf http fl query isbn) \<noteq> []"
  shows "1 < length (search_all bf http fl query isbn)"
proof -
  let ?results = "search_all bf http fl query isbn"
  from assms obtain x where x: "x \<in> set ?results" "py_lt (Finite 0) (price x)"
    by (metis filter_False)
  obtain a where a: "search_amazon bf query isbn = [a]" "price a = Finite 0"
    "is_search_link a = Some True"
    by (simp add: search_amazon_def)
  have "a \<in> set ?results"
    using a(1,3) by (simp add: search_all_def rank_results_def Let_def)
  moreover from x(2) a(2) have "x \<noteq> a"
    by (auto simp: py_lt_def)
  ultimately show ?thesis
    using x(1) by (rule two_elements [rotated])
qed

lemma search_ok_results:
  assumes "fst (search bf http fl t1 t2 t3 t4 data u) = Ok200 results sv rem"
  shows "\<exists>query isbn. results = search_all bf http fl query isbn" and "sv = savings fl results"
  using assms
  by (auto simp: search_def Let_def split: sum.splits if_splits prod.splits)

text \<open>
  C4, as the code has it. In every response of \<open>search\<close> that carries results, the
  savings are the float difference of the largest and the smallest price among the
  offers of the response with a price above 0 when there is such an offer, and 0 when
  there is none. With exactly one such offer they are 0 when its price is finite (the
  rounding of doubles keeps 0) and \<open>nan\<close> when its price is infinite.
\<close>

theorem search_savings:
  assumes "fst (search bf http fl t1 t2 t3 t4 data u) = Ok200 results sv rem"
  shows "(filter (\<lambda>r. py_lt (Finite 0) (price r)) results \<noteq> [] \<longrightarrow>
            sv = float_sub (round_double fl)
                   (Max (price ` set (filter (\<lambda>r. py_lt (Finite 0) (price r)) results)))
                   (Min (price ` set (filter (\<lambda>r. py_lt (Finite 0) (price r)) results)))) \<and>
         (filter (\<lambda>r. py_lt (Finite 0) (price r)) results = [] \<longrightarrow> sv = Finite 0) \<and>
         (\<forall>r a. filter (\<lambda>r. py_lt (Finite 0) (price r)) results = [r] \<and> price r = Finite a \<and>
            round_double fl 0 = Finite 0 \<longrightarrow> sv = Finite 0) \<and>
         (\<forall>r. filter (\<lambda>r. py_lt (Finite 0) (price r)) results = [r] \<and> price r = PosInf \<longrightarrow>
            sv = NaN)"
proof -
  let ?priced = "filter (\<lambda>r. py_lt (Finite 0) (price r)) results"
  let ?diff = "float_sub (round_double fl) (Max (price ` set ?priced)) (Min (price ` set ?priced))"
  have sv: "sv = savings fl results"
    using assms by (rule search_ok_results(2))
  have some: "sv = ?diff" if ne: "?priced \<noteq> []"
  proof -
    from search_ok_results(1) [OF assms] obtain query isbn
      where "results = search_all bf http fl query isbn" by blast
    with ne have "1 < length results"
      using search_all_length [of bf http fl query isbn] by simp
    from savings_max_min [OF this, of fl] ne sv show ?thesis by simp
  qed
  have none: "sv = Finite 0" if "?priced = []"
    using that sv by (simp add: savings_def)
  have fin: "sv = Finite 0"
    if "?priced = [r]" "price r = Finite a" "round_double fl 0 = Finite 0" for r a
    using some that by simp
  have inf: "sv = NaN" if "?priced = [r]" "price r = PosInf" for r
    using some that by simp
  show ?thesis
    apply (intro conjI allI impI)
    subgoal by (rule some)
    subgoal by (rule none)
    subgoal for r a by (rule fin [of r a]) simp_all
    subgoal for r by (rule inf [of r]) simp_all
    done
qed

text \<open>
  The priced offers 12.00, 8.50 and 20.00 give the savings 11.50; the single priced
  offer 9.99 gives 0; no priced offer gives 0.
\<close>

theorem search_savings_witness:
  "fst (search (example_finder None)
        (\<lambda>ps. HttpJson (example_body [example_listing (JStr ''12.00''),
           example_listing (JStr ''8.50''), example_listing (JStr ''20.00'')]))
        example_floats 0 0 0 0 (JObj [(''query'', JStr ''calculus'')])
        (example_user False None 0 0)) =
      Ok200 [example_offer (Finite (17 / 2)), example_offer (Finite 12), example_offer (Finite 20),
             example_link ''calculus'' ''https://www.amazon.com/s?k=calculus'']
        (Finite (23 / 2)) (Remaining 4) \<and>
   fst (search (example_finder None)
        (\<lambda>ps. HttpJson (example_body [example_listing (JStr ''9.99'')]))
        example_floats 0 0 0 0 (JObj [(''query'', JStr ''calculus'')])
        (example_user False None 0 0)) =
      Ok200 [example_offer (Finite (5623870034678907 / 562949953421312)),
             example_link ''calculus'' ''https://www.amazon.com/s?k=calculus'']
        (Finite 0) (Remaining 4) \<and>
   fst (search (example_finder None) (\<lambda>ps. HttpError)
        example_floats 0 0 0 0 (JObj [(''query'', JStr ''calculus'')])
        (example_user False None 0 0)) =
      Ok200 [example_link ''calculus'' ''https://www.amazon.com/s?k=calculus'']
        (Finite 0) (Remaining 4)"
proof -
  let ?link = "example_link ''calculus'' ''https://www.amazon.com/s?k=calculus''"
  let ?s = "\<lambda>http. fst (search (example_finder None) http example_floats 0 0 0 0
        (JObj [(''query'', JStr ''calculus'')]) (example_user False None 0 0))"
  let ?x = "Finite (5623870034678907 / 562949953421312)"
  have a: "?s (\<lambda>ps. HttpJson (example_body [example_listing (JStr ''12.00''),
           example_listing (JStr ''8.50''), example_listing (JStr ''20.00'')])) =
        Ok200 [example_offer (Finite (17 / 2)), example_offer (Finite 12),
               example_offer (Finite 20), ?link]
          (savings example_floats [example_offer (Finite (17 / 2)), example_offer (Finite 12),
             example_offer (Finite 20), ?link])
          (Remaining 4)"
    by (simp add: search_defs client_defs py_defs example_defs float_defs)
  have b: "?s (\<lambda>ps. HttpJson (example_body [example_listing (JStr ''9.99'')])) =
        Ok200 [example_offer ?x, ?link] (savings example_floats [example_offer ?x, ?link])
          (Remaining 4)"
    by (simp add: search_defs client_defs py_defs example_defs float_defs)
  have c: "?s (\<lambda>ps. HttpError) = Ok200 [?link] (savings example_floats [?link]) (Remaining 4)"
    by (simp add: search_defs client_defs py_defs example_defs float_defs)
  have a': "savings example_floats [example_offer (Finite (17 / 2)), example_offer (Finite 12),
             example_offer (Finite 20), ?link] = Finite (23 / 2)"
    using search_savings [OF a]
    by (simp add: example_offer_def example_link_def example_floats_def float_defs max_def min_def)
  have b': "savings example_floats [example_offer ?x, ?link] = Finite 0"
    using search_savings [OF b]
    by (simp add: example_offer_def example_link_def example_floats_def float_defs)
  have c': "savings example_floats [?link] = Finite 0"
    using search_savings [OF c]
    by (simp add: example_link_def float_defs)
  show ?thesis
    unfolding a b c a' b' c' by simp
qed

text \<open>
  The claim as stated fails for a single priced offer whose price is infinite, as the
  price string \<open>inf\<close> gives it: the largest and the smallest price are both infinite
  and their difference is \<open>nan\<close>, not 0.
\<close>

theorem search_savings_counterexample:
  "fst (search (example_finder None)
        (\<lambda>ps. HttpJson (example_body [example_listing (JStr ''inf'')]))
        example_floats 0 0 0 0 (JObj [(''query'', JStr ''calculus'')])
        (example_user False None 0 0)) =
      Ok200 [example_offer PosInf,
             example_link ''calculus'' ''https://www.amazon.com/s?k=calculus'']
        NaN (Remaining 4) \<and>
   filter (\<lambda>r. py_lt (Finite 0) (price r))
     [example_offer PosInf, example_link ''calculus'' ''https://www.amazon.com/s?k=calculus''] =
     [example_offer PosInf]"
  by (simp add: search_defs savings_def client_defs py_defs example_defs float_defs)

section \<open>The auction client\<close>

lemma ebay_loop_length:
  "ebay_loop fl items acc = Inr rs \<Longrightarrow> length rs \<le> length acc + length items"
proof (induction items arbitrary: acc)
  case Nil
  then show ?case by simp
next
  case (Cons item items)
  show ?case
  proof (cases "ebay_offer fl item")
    case (Inl e)
    with Cons.prems have "ebay_loop fl items acc = Inr rs"
      by (simp split: if_splits)
    from Cons.IH [OF this] show ?thesis by simp
  next
    case (Inr r)
    with Cons.prems have "ebay_loop fl items (acc @ [r]) = Inr rs"
      by simp
    from Cons.IH [OF this] show ?thesis by simp
  qed
qed

lemma ebay_loop_offers:
  assumes "\<forall>item\<in>set items. \<forall>e. ebay_offer fl item = Inl e \<longrightarrow>
             e = KeyError \<or> e = IndexError \<or> e = ValueError"
  shows "ebay_loop fl items acc =
           Inr (acc @ List.map_filter
                  (\<lambda>item. case ebay_offer fl item of Inl e \<Rightarrow> None | Inr r \<Rightarrow> Some r) items)"
  using assms
proof (induction items arbitrary: acc)
  case Nil
  then show ?case by (simp add: List.map_filter_simps)
next
  case (Cons item items)
  then have IH: "ebay_loop fl items acc' =
      Inr (acc' @ List.map_filter
             (\<lambda>item. case ebay_offer fl item of Inl e \<Rightarrow> None | Inr r \<Rightarrow> Some r) items)" for acc'
    by simp
  show ?case
  proof (cases "ebay_offer fl item")
    case (Inl e)
    with Cons.prems have "e = KeyError \<or> e = IndexError \<or> e = ValueError"
      by simp
    with Inl show ?thesis
      by (auto simp: IH List.map_filter_simps)
  next
    case (Inr r)
    then show ?thesis
      by (simp add: IH List.map_filter_simps)
  qed
qed

lemma ebay_loop_fatal:
  assumes "\<exists>item\<in>set items. \<exists>e. ebay_offer fl item = Inl e \<and>
             e \<noteq> KeyError \<and> e \<noteq> IndexError \<and> e \<noteq> ValueError"
  shows "\<exists>e. ebay_loop fl items acc = Inl e"
  using assms
proof (induction items arbitrary: acc)
  case Nil
  then show ?case by simp
next
  case (Cons item items)
  show ?case
  proof (cases "\<exists>e. ebay_offer fl item = Inl e \<and>
      e \<noteq> KeyError \<and> e \<noteq> IndexError \<and> e \<noteq> ValueError")
    case True
    then show ?thesis by auto
  next
    case False
    with Cons.prems have "\<exists>item\<in>set items. \<exists>e. ebay_offer fl item = Inl e \<and>
        e \<noteq> KeyError \<and> e \<noteq> IndexError \<and> e \<noteq> ValueError"
      by auto
    from Cons.IH [OF this] show ?thesis
      by (cases "ebay_offer fl item") auto
  qed
qed

lemma py_slice5_length: "py_slice5 x = Inr first5 \<Longrightarrow> length first5 \<le> 5"
  by (auto simp: py_slice5_def split: json.splits)

lemma search_ebay_length: "length (search_ebay bf http fl query isbn) \<le> 5"
proof -
  have "length rs \<le> 5"
    if "bind_exn (ebay_items data) (\<lambda>items.
          bind_exn (py_slice5 items) (\<lambda>first5. ebay_loop fl first5 [])) = Inr rs" for data rs
  proof -
    from that obtain items where "bind_exn (py_slice5 items) (\<lambda>first5. ebay_loop fl first5 []) = Inr rs"
      by (cases "ebay_items data") (simp_all add: bind_exn_def)
    then obtain first5 where first5: "py_slice5 items = Inr first5" and loop: "ebay_loop fl first5 [] = Inr rs"
      by (cases "py_slice5 items") (simp_all add: bind_exn_def)
    from ebay_loop_length [OF loop] py_slice5_length [OF first5] show ?thesis by simp
  qed
  then show ?thesis
    by (auto simp: search_ebay_def split: http_result.splits sum.splits)
qed

lemma price_error_no_offer: "price_of fl item = Inl e \<Longrightarrow> ebay_offer fl item = Inl e"
  by (simp add: ebay_offer_def bind_exn_def)

lemma bind_exn_Inr: "bind_exn m f = Inr y \<longleftrightarrow> (\<exists>x. m = Inr x \<and> f x = Inr y)"
  by (cases m) (simp_all add: bind_exn_def)

lemma py_get_absent: "py_getitem item k = Inl KeyError \<Longrightarrow> py_get item k d = Inr d"
  by (auto simp: py_getitem_def py_get_def split: json.splits option.splits)

lemma py_index0_single: "py_index0 (JArr [x]) = Inr x"
  by (simp add: py_index0_def)

lemma ebay_offer_condition:
  assumes "ebay_offer fl item = Inr r"
    and "py_get item ''condition'' (JArr [JObj []]) = Inr a"
    and "py_index0 a = Inr b"
    and "py_getitem b ''conditionDisplayName'' = Inl KeyError"
  shows "condition r = JStr ''Used''"
proof -
  from assms(1) obtain c where
    c: "bind_exn (py_get item ''condition'' (JArr [JObj []])) (\<lambda>a.
          bind_exn (py_index0 a) (\<lambda>b.
          bind_exn (py_get b ''conditionDisplayName'' (JArr [JStr ''Used''])) py_index0)) = Inr c"
    and r: "condition r = c"
    unfolding ebay_offer_def bind_exn_Inr by force
  from c show ?thesis
    unfolding r assms(2)
    by (simp add: bind_exn_def assms(3) py_index0_single py_get_absent [OF assms(4)])
qed

lemma ebay_offer_shipping:
  assumes "ebay_offer fl item = Inr r"
    and "py_get item ''shippingInfo'' (JArr [JObj []]) = Inr a"
    and "py_index0 a = Inr b"
    and "py_get b ''shippingServiceCost'' (JArr [JObj []]) = Inr c"
    and "py_index0 c = Inr d"
    and "py_getitem d ''__value__'' = Inl KeyError"
  shows "shipping r = Some (JStr ''0'')"
proof -
  from assms(1) obtain s where
    s: "bind_exn (py_get item ''shippingInfo'' (JArr [JObj []])) (\<lambda>a.
          bind_exn (py_index0 a) (\<lambda>b.
          bind_exn (py_get b ''shippingServiceCost'' (JArr [JObj []])) (\<lambda>c.
          bind_exn (py_index0 c) (\<lambda>d.
          py_get d ''__value__'' (JStr ''0''))))) = Inr s"
    and r: "shipping r = Some s"
    unfolding ebay_offer_def bind_exn_Inr by force
  from s show ?thesis
    unfolding r assms(2)
    by (simp add: bind_exn_def assms(3,4,5) py_get_absent [OF assms(6)])
qed

lemma absent_key_default:
  assumes "py_getitem item k = Inl KeyError"
  shows "py_get item k (JArr [JObj []]) = Inr (JArr [JObj []])"
    and "py_index0 (JArr [JObj []]) = Inr (JObj [])"
    and "py_getitem (JObj []) k' = Inl KeyError"
    and "py_get (JObj []) k' dflt = Inr dflt"
proof -
  show "py_get item k (JArr [JObj []]) = Inr (JArr [JObj []])"
    using assms by (rule py_get_absent)
  show "py_index0 (JArr [JObj []]) = Inr (JObj [])"
    by (rule py_index0_single)
  show "py_getitem (JObj []) k' = Inl KeyError"
    by (simp add: py_getitem_def)
  show "py_get (JObj []) k' dflt = Inr dflt"
    by (simp add: py_get_def)
qed

text \<open>
  C5, as the code has it. \<open>search_ebay\<close> always returns a list, of at most 5 offers.
  A failed request gives the empty list, and so does a body in which the path to the
  listings raises. When the listings are a list and each of its first five either
  yields an offer or raises \<open>KeyError\<close>, \<open>IndexError\<close> or \<open>ValueError\<close>, the result
  holds the offers of exactly those of the five that yield one, in order: a listing
  whose price lookup raises \<open>KeyError\<close> or \<open>IndexError\<close> (a missing field) or
  \<open>ValueError\<close> (a string that is no number) yields none and the others are kept.
  When one of the first five raises another exception, which the inner handler does
  not catch (\<open>TypeError\<close> or \<open>AttributeError\<close> on a value of the wrong type,
  \<open>OverflowError\<close> on an integer price beyond the doubles), the result is empty. An
  offer has the condition \<open>Used\<close> when the listing has no key \<open>condition\<close> or the
  first element under that key has no key \<open>conditionDisplayName\<close>; it has the shipping
  \<open>0\<close> when the listing has no key \<open>shippingInfo\<close>, or the first element under that
  key has no \<open>shippingServiceCost\<close>, or the first element under that one has no
  \<open>__value__\<close>.
\<close>

theorem search_ebay_fail_soft:
  "length (search_ebay bf http fl query isbn) \<le> 5 \<and>
   (http (ebay_params bf (search_term query isbn)) = HttpError \<longrightarrow>
      search_ebay bf http fl query isbn = []) \<and>
   (\<forall>data e. http (ebay_params bf (search_term query isbn)) = HttpJson data \<and>
        ebay_items data = Inl e \<longrightarrow>
      search_ebay bf http fl query isbn = []) \<and>
   (\<forall>data items. truthy (ebay_api_key bf) \<and>
        http (ebay_params bf (search_term query isbn)) = HttpJson data \<and>
        ebay_items data = Inr (JArr items) \<and>
        (\<forall>item\<in>set (take 5 items). \<forall>e. ebay_offer fl item = Inl e \<longrightarrow>
           e = KeyError \<or> e = IndexError \<or> e = ValueError) \<longrightarrow>
      search_ebay bf http fl query isbn =
        List.map_filter (\<lambda>item. case ebay_offer fl item of Inl e \<Rightarrow> None | Inr r \<Rightarrow> Some r)
          (take 5 items)) \<and>
   (\<forall>data items. http (ebay_params bf (search_term query isbn)) = HttpJson data \<and>
        ebay_items data = Inr (JArr items) \<and>
        (\<exists>item\<in>set (take 5 items). \<exists>e. ebay_offer fl item = Inl e \<and>
           e \<noteq> KeyError \<and> e \<noteq> IndexError \<and> e \<noteq> ValueError) \<longrightarrow>
      search_ebay bf http fl query isbn = []) \<and>
   (\<forall>item e. price_of fl item = Inl e \<longrightarrow> ebay_offer fl item = Inl e) \<and>
   (\<forall>item r a b. ebay_offer fl item = Inr r \<and>
        py_get item ''condition'' (JArr [JObj []]) = Inr a \<and> py_index0 a = Inr b \<and>
        py_getitem b ''conditionDisplayName'' = Inl KeyError \<longrightarrow>
      condition r = JStr ''Used'') \<and>
   (\<forall>item r a b c d. ebay_offer fl item = Inr r \<and>
        py_get item ''shippingInfo'' (JArr [JObj []]) = Inr a \<and> py_index0 a = Inr b \<and>
        py_get b ''shippingServiceCost'' (JArr [JObj []]) = Inr c \<and> py_index0 c = Inr d \<and>
        py_getitem d ''__value__'' = Inl KeyError \<longrightarrow>
      shipping r = Some (JStr ''0'')) \<and>
   (\<forall>item r. ebay_offer fl item = Inr r \<longrightarrow>
      (py_getitem item ''condition'' = Inl KeyError \<longrightarrow> condition r = JStr ''Used'') \<and>
      (py_getitem item ''shippingInfo'' = Inl KeyError \<longrightarrow> shipping r = Some (JStr ''0'')))"
proof -
  let ?res = "search_ebay bf http fl query isbn"
  let ?req = "http (ebay_params bf (search_term query isbn))"
  have a: "length ?res \<le> 5"
    by (rule search_ebay_length)
  have b: "?res = []" if "?req = HttpError"
    using that by (simp add: search_ebay_def)
  have c: "?res = []" if "?req = HttpJson data" "ebay_items data = Inl e" for data e
    using that by (simp add: search_ebay_def bind_exn_def)
  have d: "?res = List.map_filter
        (\<lambda>item. case ebay_offer fl item of Inl e \<Rightarrow> None | Inr r \<Rightarrow> Some r) (take 5 items)"
    if "truthy (ebay_api_key bf)" "?req = HttpJson data" "ebay_items data = Inr (JArr items)"
       "\<forall>item\<in>set (take 5 items). \<forall>e. ebay_offer fl item = Inl e \<longrightarrow>
           e = KeyError \<or> e = IndexError \<or> e = ValueError"
    for data items
    using that(1-3) ebay_loop_offers [OF that(4), of "[]"]
    by (simp add: search_ebay_def bind_exn_def py_slice5_def)
  have e: "?res = []"
    if "?req = HttpJson data" "ebay_items data = Inr (JArr items)"
       "\<exists>item\<in>set (take 5 items). \<exists>e. ebay_offer fl item = Inl e \<and>
           e \<noteq> KeyError \<and> e \<noteq> IndexError \<and> e \<noteq> ValueError"
    for data items
  proof -
    from ebay_loop_fatal [OF that(3), of "[]"] obtain x
      where "ebay_loop fl (take 5 items) [] = Inl x" by blast
    with that(1,2) show ?thesis
      by (simp add: search_ebay_def bind_exn_def py_slice5_def)
  qed
  have f: "ebay_offer fl item = Inl x" if "price_of fl item = Inl x" for item x
    using that by (rule price_error_no_offer)
  have g: "condition r = JStr ''Used''"
    if "ebay_offer fl item = Inr r" "py_get item ''condition'' (JArr [JObj []]) = Inr a"
      "py_index0 a = Inr b" "py_getitem b ''conditionDisplayName'' = Inl KeyError"
    for item r a b
    using that by (rule ebay_offer_condition)
  have h: "shipping r = Some (JStr ''0'')"
    if "ebay_offer fl item = Inr r" "py_get item ''shippingInfo'' (JArr [JObj []]) = Inr a"
      "py_index0 a = Inr b" "py_get b ''shippingServiceCost'' (JArr [JObj []]) = Inr c"
      "py_index0 c = Inr d" "py_getitem d ''__value__'' = Inl KeyError"
    for item r a b c d
    using that by (rule ebay_offer_shipping)
  have g': "condition r = JStr ''Used''"
    if "ebay_offer fl item = Inr r" "py_getitem item ''condition'' = Inl KeyError" for item r
    using that(1) absent_key_default(1-3) [OF that(2)] by (rule g)
  have h': "shipping r = Some (JStr ''0'')"
    if "ebay_offer fl item = Inr r" "py_getitem item ''shippingInfo'' = Inl KeyError" for item r
    using that(1) absent_key_default(1,2) [OF that(2)]
      absent_key_default(4,2,3) [OF that(2)]
    by (rule h)
  show ?thesis
    apply (intro conjI allI impI)
    subgoal by (rule a)
    subgoal by (rule b)
    subgoal for data x by (rule c [of data x]) simp_all
    subgoal for data items by (rule d [of data items]) simp_all
    subgoal for data items by (rule e [of data items]) simp_all
    subgoal for item x by (rule f)
    subgoal for item r a b by (rule g [of item r a b]) simp_all
    subgoal for item r a b c d by (rule h [of item r a b c d]) simp_all
    subgoal for item r by (rule g')
    subgoal for item r by (rule h')
    done
qed

text \<open>
  Of three listings, the first without a price field and the second with a price that
  is no number, only the third is returned; it has neither \<open>condition\<close> nor
  \<open>shippingInfo\<close>, and gets the defaults. A failed request gives the empty list, and so
  does a response in which one listing has an integer price beyond the doubles.
\<close>

theorem search_ebay_fail_soft_witness:
  "search_ebay (example_finder None)
     (\<lambda>ps. HttpJson (example_body [JObj [(''title'', JArr [JStr ''Algebra''])],
                                    example_listing (JStr ''cheap''),
                                    example_listing (JStr ''12.00'')]))
     example_floats ''calculus'' None = [example_offer (Finite 12)] \<and>
   price_of example_floats (JObj [(''title'', JArr [JStr ''Algebra''])]) = Inl KeyError \<and>
   price_of example_floats (example_listing (JStr ''cheap'')) = Inl ValueError \<and>
   condition (example_offer (Finite 12)) = JStr ''Used'' \<and>
   shipping (example_offer (Finite 12)) = Some (JStr ''0'') \<and>
   search_ebay (example_finder None) (\<lambda>ps. HttpError) example_floats ''calculus'' None = [] \<and>
   price_of example_floats (example_listing (JInt (10 ^ 309))) = Inl OverflowError \<and>
   search_ebay (example_finder None)
     (\<lambda>ps. HttpJson (example_body [example_listing (JInt (10 ^ 309)),
                                    example_listing (JStr ''12.00'')]))
     example_floats ''calculus'' None = []"
proof -
  let ?items = "[JObj [(''title'', JArr [JStr ''Algebra''])], example_listing (JStr ''cheap''),
                 example_listing (JStr ''12.00'')]"
  let ?big = "[example_listing (JInt (10 ^ 309)), example_listing (JStr ''12.00'')]"
  have p1: "price_of example_floats (JObj [(''title'', JArr [JStr ''Algebra''])]) = Inl KeyError"
    by (simp add: price_of_def py_defs)
  have p2: "price_of example_floats (example_listing (JStr ''cheap'')) = Inl ValueError"
    by (simp add: price_of_def py_defs example_defs)
  have p4: "price_of example_floats (example_listing (JInt (10 ^ 309))) = Inl OverflowError"
    by (simp add: price_of_def py_defs example_defs)
  have o3: "ebay_offer example_floats (example_listing (JStr ''12.00'')) =
      Inr (example_offer (Finite 12))"
    by (simp add: ebay_offer_def price_of_def py_defs example_defs)
  have items: "ebay_items (example_body ?items) = Inr (JArr ?items)"
    by (simp add: ebay_items_def py_defs example_body_def)
  have big: "ebay_items (example_body ?big) = Inr (JArr ?big)"
    by (simp add: ebay_items_def py_defs example_body_def)
  have key: "truthy (ebay_api_key (example_finder None))"
    by (simp add: truthy_def example_finder_def)
  note inst = search_ebay_fail_soft [of "example_finder None" _ example_floats "''calculus''" None]
  have o1: "ebay_offer example_floats (JObj [(''title'', JArr [JStr ''Algebra''])]) = Inl KeyError"
    using inst [of "\<lambda>ps. HttpError"] p1 by blast
  have o2: "ebay_offer example_floats (example_listing (JStr ''cheap'')) = Inl ValueError"
    using inst [of "\<lambda>ps. HttpError"] p2 by blast
  have o4: "ebay_offer example_floats (example_listing (JInt (10 ^ 309))) = Inl OverflowError"
    using inst [of "\<lambda>ps. HttpError"] p4 by blast
  have ok: "\<forall>item\<in>set (take 5 ?items). \<forall>e. ebay_offer example_floats item = Inl e \<longrightarrow>
              e = KeyError \<or> e = IndexError \<or> e = ValueError"
    by (simp add: o1 o2 o3)
  have r: "search_ebay (example_finder None) (\<lambda>ps. HttpJson (example_body ?items))
             example_floats ''calculus'' None =
           List.map_filter
             (\<lambda>item. case ebay_offer example_floats item of Inl e \<Rightarrow> None | Inr r \<Rightarrow> Some r)
             (take 5 ?items)"
    using inst [of "\<lambda>ps. HttpJson (example_body ?items)"] key items ok by blast
  have bad: "\<exists>item\<in>set (take 5 ?big). \<exists>e. ebay_offer example_floats item = Inl e \<and>
              e \<noteq> KeyError \<and> e \<noteq> IndexError \<and> e \<noteq> ValueError"
    using o4 by simp
  have r': "search_ebay (example_finder None) (\<lambda>ps. HttpJson (example_body ?big))
             example_floats ''calculus'' None = []"
    using inst [of "\<lambda>ps. HttpJson (example_body ?big)"] big bad by blast
  have c: "condition (example_offer (Finite 12)) = JStr ''Used''"
    using inst [of "\<lambda>ps. HttpError"] o3
    by (simp add: py_getitem_def example_listing_def)
  have s: "shipping (example_offer (Finite 12)) = Some (JStr ''0'')"
    using inst [of "\<lambda>ps. HttpError"] o3
    by (simp add: py_getitem_def example_listing_def)
  have f: "search_ebay (example_finder None) (\<lambda>ps. HttpError) example_floats ''calculus'' None = []"
    using inst [of "\<lambda>ps. HttpError"] by simp
  show ?thesis
    unfolding r r' using p1 p2 p4 c s f
    by (simp add: List.map_filter_simps o1 o2 o3)
qed

text \<open>
  The claim as stated fails for a listing whose price is the JSON value \<open>null\<close>:
  \<open>float(None)\<close> raises \<open>TypeError\<close>, which only the outer handler catches, so the
  listing that follows, which yields an offer on its own, is not returned.
\<close>

theorem search_ebay_fail_soft_counterexample:
  "price_of example_floats (example_listing JNull) = Inl TypeError \<and>
   ebay_offer example_floats (example_listing (JStr ''12.00'')) = Inr (example_offer (Finite 12)) \<and>
   search_ebay (example_finder None)
     (\<lambda>ps. HttpJson (example_body [example_listing JNull, example_listing (JStr ''12.00'')]))
     example_floats ''calculus'' None = []"
  by (simp add: client_defs py_defs example_defs)

section \<open>The retail client\<close>

lemma plus_char:
  "(if c = CHR '' '' then CHR ''+'' else c) = d \<Longrightarrow> d \<noteq> CHR ''+'' \<Longrightarrow> c = d"
  by (cases "c = CHR '' ''") simp_all

lemma plus_for_space_eq:
  assumes "map (\<lambda>c. if c = CHR '' '' then CHR ''+'' else c) xs = ''tag=''"
  shows "xs = ''tag=''"
proof -
  from assms obtain a b c d where xs: "xs = [a, b, c, d]"
    and a: "(if a = CHR '' '' then CHR ''+'' else a) = CHR ''t''"
    and b: "(if b = CHR '' '' then CHR ''+'' else b) = CHR ''a''"
    and c: "(if c = CHR '' '' then CHR ''+'' else c) = CHR ''g''"
    and d: "(if d = CHR '' '' then CHR ''+'' else d) = CHR ''=''"
    unfolding map_eq_Cons_conv by blast
  from plus_char [OF a] plus_char [OF b] plus_char [OF c] plus_char [OF d] xs
  show ?thesis by simp
qed

lemma plus_for_space_tag:
  assumes "sublist ''tag='' (map (\<lambda>c. if c = CHR '' '' then CHR ''+'' else c) st)"
  shows "sublist ''tag='' st"
proof -
  from sublist_map_rightE [OF assms] obtain xs
    where sub: "sublist xs st"
      and xs: "''tag='' = map (\<lambda>c. if c = CHR '' '' then CHR ''+'' else c) xs"
    by (elim exE conjE)
  from xs [symmetric] have "xs = ''tag=''"
    by (rule plus_for_space_eq)
  with sub show ?thesis by simp
qed

lemma tag_not_in_base: "\<not> sublist ''tag='' ''https://www.amazon.com/s?k=''"
  by (simp add: sublist_code)

lemma tag_not_across:
  assumes "''tag='' = xs1 @ xs2" and "suffix xs1 ''https://www.amazon.com/s?k=''"
  shows "xs1 = []"
proof (rule ccontr)
  assume ne: "xs1 \<noteq> []"
  from assms(2) obtain ps where "''https://www.amazon.com/s?k='' = ps @ xs1"
    by (auto simp: suffix_def)
  with ne have l: "last xs1 = CHR ''=''"
    by (metis last_appendR last.simps list.distinct(1) last_ConsR)
  from assms(1) ne consider "xs1 = ''t''" | "xs1 = ''ta''" | "xs1 = ''tag''" | "xs1 = ''tag=''"
    by (auto simp: Cons_eq_append_conv)
  then show False
  proof cases
    case 4
    with assms(2) show False by (simp add: suffix_to_prefix)
  qed (use l in simp_all)
qed

lemma amazon_link_no_tag:
  assumes "\<not> sublist ''tag='' st"
  shows "\<not> sublist ''tag=''
           (''https://www.amazon.com/s?k='' @ map (\<lambda>c. if c = CHR '' '' then CHR ''+'' else c) st)"
proof
  let ?enc = "map (\<lambda>c. if c = CHR '' '' then CHR ''+'' else c) st"
  assume "sublist ''tag='' (''https://www.amazon.com/s?k='' @ ?enc)"
  then consider "sublist ''tag='' ''https://www.amazon.com/s?k=''" | "sublist ''tag='' ?enc"
    | xs1 xs2 where "''tag='' = xs1 @ xs2" "suffix xs1 ''https://www.amazon.com/s?k=''"
        "prefix xs2 ?enc"
    unfolding sublist_append by blast
  then show False
  proof cases
    case 1
    with tag_not_in_base show False by simp
  next
    case 2
    from plus_for_space_tag [OF this] assms show False by simp
  next
    case 3
    from tag_not_across [OF 3(1,2)] 3(1) have "xs2 = ''tag=''" by simp
    with 3(3) have "sublist ''tag='' ?enc" by (simp add: prefix_imp_sublist)
    from plus_for_space_tag [OF this] assms show False by simp
  qed
qed

text \<open>
  C6, as the code has it. \<open>search_amazon\<close> returns exactly one offer, with price 0
  and the search-link flag set; its title is \<open>Search results for: \<close> followed by the
  query; its URL is \<open>https://www.amazon.com/s?k=\<close> followed by the ISBN when one is
  given and not empty, by the query otherwise, with every space replaced by \<open>+\<close>,
  followed by \<open>&tag=\<close> and the tag exactly when a tag is configured. The encoded text
  holds no space. When the ISBN or query used itself does not contain \<open>tag=\<close>, the URL contains
  \<open>tag=\<close> if and only if a tag is configured.
\<close>

theorem search_amazon_offer:
  "\<exists>r link enc.
     search_amazon bf query isbn = [r] \<and> price r = Finite 0 \<and> is_search_link r = Some True \<and>
     title r = JStr (''Search results for: '' @ query) \<and>
     url r = JStr link \<and>
     enc = map (\<lambda>c. if c = CHR '' '' then CHR ''+'' else c)
             (if truthy isbn then the isbn else query) \<and>
     CHR '' '' \<notin> set enc \<and>
     link = ''https://www.amazon.com/s?k='' @ enc @
              (if truthy (amazon_tag bf) then ''&tag='' @ the (amazon_tag bf) else []) \<and>
     (\<not> sublist ''tag='' (if truthy isbn then the isbn else query) \<longrightarrow>
        (sublist ''tag='' link \<longleftrightarrow> truthy (amazon_tag bf)))"
proof -
  let ?st = "if truthy isbn then the isbn else query"
  let ?enc = "map (\<lambda>c. if c = CHR '' '' then CHR ''+'' else c) ?st"
  let ?link = "''https://www.amazon.com/s?k='' @ ?enc @
                 (if truthy (amazon_tag bf) then ''&tag='' @ the (amazon_tag bf) else [])"
  let ?r = "\<lparr>source = ''Amazon'', price = Finite 0, title = JStr (''Search results for: '' @ query),
             condition = JStr ''Various'', url = JStr ?link, shipping = None,
             image_url = None, is_search_link = Some True\<rparr>"
  have r: "search_amazon bf query isbn = [?r]"
    by (simp add: search_amazon_def build_amazon_link_def search_term_def)
  have sp: "CHR '' '' \<notin> set ?enc"
    by auto
  have tag: "sublist ''tag='' ?link \<longleftrightarrow> truthy (amazon_tag bf)"
    if no: "\<not> sublist ''tag='' ?st"
  proof (cases "truthy (amazon_tag bf)")
    case True
    have "sublist ''tag='' ((''https://www.amazon.com/s?k='' @ ?enc @ ''&'') @ ''tag='' @
            the (amazon_tag bf))"
      by (rule sublist_appendI)
    with True show ?thesis by simp
  next
    case False
    with amazon_link_no_tag [OF no] show ?thesis by simp
  qed
  have "search_amazon bf query isbn = [?r] \<and> price ?r = Finite 0 \<and> is_search_link ?r = Some True \<and>
     title ?r = JStr (''Search results for: '' @ query) \<and>
     url ?r = JStr ?link \<and> ?enc = ?enc \<and> CHR '' '' \<notin> set ?enc \<and> ?link = ?link \<and>
     (\<not> sublist ''tag='' ?st \<longrightarrow> (sublist ''tag='' ?link \<longleftrightarrow> truthy (amazon_tag bf)))"
    using r sp tag by simp
  then show ?thesis by blast
qed

text \<open>
  The query \<open>Calculus Early Transcendentals\<close> without a tag gives the URL with
  \<open>k=Calculus+Early+Transcendentals\<close> and no \<open>tag=\<close>; with the tag \<open>saver-20\<close> the URL
  ends in \<open>&tag=saver-20\<close> and contains \<open>tag=\<close>.
\<close>

theorem search_amazon_offer_witness:
  "search_amazon (example_finder None) ''Calculus Early Transcendentals'' None =
     [example_link ''Calculus Early Transcendentals''
        ''https://www.amazon.com/s?k=Calculus+Early+Transcendentals''] \<and>
   sublist ''k=Calculus+Early+Transcendentals''
     ''https://www.amazon.com/s?k=Calculus+Early+Transcendentals'' \<and>
   \<not> sublist ''tag='' ''https://www.amazon.com/s?k=Calculus+Early+Transcendentals'' \<and>
   search_amazon (example_finder (Some ''saver-20'')) ''Calculus Early Transcendentals'' (Some []) =
     [example_link ''Calculus Early Transcendentals''
        ''https://www.amazon.com/s?k=Calculus+Early+Transcendentals&tag=saver-20''] \<and>
   sublist ''tag='' ''https://www.amazon.com/s?k=Calculus+Early+Transcendentals&tag=saver-20''"
proof -
  let ?q = "''Calculus Early Transcendentals''"
  have a: "search_amazon (example_finder None) ?q None =
     [example_link ?q ''https://www.amazon.com/s?k=Calculus+Early+Transcendentals'']"
    by (simp add: search_amazon_def build_amazon_link_def search_term_def truthy_def
          example_finder_def example_link_def)
  have b: "search_amazon (example_finder (Some ''saver-20'')) ?q (Some []) =
     [example_link ?q ''https://www.amazon.com/s?k=Calculus+Early+Transcendentals&tag=saver-20'']"
    by (simp add: search_amazon_def build_amazon_link_def search_term_def truthy_def
          example_finder_def example_link_def)
  have k: "sublist ''k=Calculus+Early+Transcendentals''
     (''https://www.amazon.com/s?'' @ ''k=Calculus+Early+Transcendentals'')"
    by (rule sublist_append_leftI)
  have no: "\<not> sublist ''tag='' ?q"
    by (simp add: sublist_code)
  have t0: "\<not> truthy (amazon_tag (example_finder None))" "\<not> truthy None"
    by (simp_all add: truthy_def example_finder_def)
  have t1: "truthy (amazon_tag (example_finder (Some ''saver-20'')))" "\<not> truthy (Some [])"
    by (simp_all add: truthy_def example_finder_def)
  from search_amazon_offer [of "example_finder None" ?q None]
  obtain r link where "search_amazon (example_finder None) ?q None = [r]" "url r = JStr link"
    "\<not> sublist ''tag='' link"
    using no t0 by auto
  with a have c: "\<not> sublist ''tag='' ''https://www.amazon.com/s?k=Calculus+Early+Transcendentals''"
    by (simp add: example_link_def)
  from search_amazon_offer [of "example_finder (Some ''saver-20'')" ?q "Some []"]
  obtain r link where "search_amazon (example_finder (Some ''saver-20'')) ?q (Some []) = [r]"
    "url r = JStr link" "sublist ''tag='' link"
    using no t1 by auto
  with b have d: "sublist ''tag=''
      ''https://www.amazon.com/s?k=Calculus+Early+Transcendentals&tag=saver-20''"
    by (simp add: example_link_def)
  from a b c d k show ?thesis by simp
qed

text \<open>
  The claim as stated fails for a query that itself holds \<open>&tag=\<close>: only spaces are
  encoded, so the URL carries a \<open>tag=\<close> parameter although no tag is configured.
\<close>

theorem search_amazon_offer_counterexample:
  "\<not> truthy (amazon_tag (example_finder None)) \<and>
   search_amazon (example_finder None) ''algebra&tag=other-20'' None =
     [example_link ''algebra&tag=other-20''
        ''https://www.amazon.com/s?k=algebra&tag=other-20''] \<and>
   sublist ''&tag='' ''https://www.amazon.com/s?k=algebra&tag=other-20''"
  by (simp add: search_amazon_def build_amazon_link_def search_term_def truthy_def
        example_finder_def example_link_def sublist_code)

section \<open>The remaining quota of a response\<close>

text \<open>
  C7 at an account whose premium flag is set and whose expiry (50) has passed at the
  time of the request (100), with 2 searches made today: the search is counted, the
  counter becomes 3, and the response carries \<open>unlimited\<close>, not the count 2.
\<close>

theorem search_remaining_expired_premium:
  "search (example_finder None) (\<lambda>ps. HttpError) example_floats 100 100 100 100
     (JObj [(''query'', JStr ''calculus'')]) (example_user True (Some 50) 2 50) =
   (Ok200 [example_link ''calculus'' ''https://www.amazon.com/s?k=calculus''] (Finite 0) Unlimited,
    example_user True (Some 50) 3 50)"
  by (simp add: search_defs savings_def client_defs py_defs example_defs float_defs)

section \<open>The subscription webhook\<close>

lemma cancel_premium_first:
  assumes "\<exists>u\<in>set store. email u = em"
  shows "\<exists>i<length store. email (store ! i) = em \<and> (\<forall>j<i. email (store ! j) \<noteq> em) \<and>
           cancel_premium em store = store[i := (store ! i)\<lparr>is_premium := False\<rparr>]"
  using assms
proof (induction store)
  case Nil
  then show ?case by simp
next
  case (Cons u us)
  show ?case
  proof (cases "email u = em")
    case True
    then have "email ((u # us) ! 0) = em \<and> (\<forall>j<0. email ((u # us) ! j) \<noteq> em) \<and>
        cancel_premium em (u # us) = (u # us)[0 := ((u # us) ! 0)\<lparr>is_premium := False\<rparr>]"
      by simp
    then show ?thesis by blast
  next
    case False
    with Cons.prems have "\<exists>u\<in>set us. email u = em" by auto
    from Cons.IH [OF this] obtain i where i: "i < length us" "email (us ! i) = em"
      "\<forall>j<i. email (us ! j) \<noteq> em"
      "cancel_premium em us = us[i := (us ! i)\<lparr>is_premium := False\<rparr>]"
      by blast
    have "\<forall>j<Suc i. email ((u # us) ! j) \<noteq> em"
    proof (intro allI impI)
      fix j assume "j < Suc i"
      with False i(3) show "email ((u # us) ! j) \<noteq> em"
        by (cases j) simp_all
    qed
    with False i have "Suc i < length (u # us) \<and> email ((u # us) ! Suc i) = em \<and>
        (\<forall>j<Suc i. email ((u # us) ! j) \<noteq> em) \<and>
        cancel_premium em (u # us) =
          (u # us)[Suc i := ((u # us) ! Suc i)\<lparr>is_premium := False\<rparr>]"
      by simp
    then show ?thesis by blast
  qed
qed

text \<open>
  C9. For a verified event of the type \<open>customer.subscription.deleted\<close> whose
  embedded customer email is that of an account in the table, the handler answers 200
  and the table changes at one place only, the first account with that email: its
  premium flag is false afterwards, and its expiry, its counter, its reset time and
  every other field are as before. For a verified event of any other type the handler
  answers 200 and the table is unchanged.
\<close>

theorem stripe_webhook_cancel:
  "(py_getitem event ''type'' = Inr (JStr ''customer.subscription.deleted'') \<and>
    bind_exn (py_getitem event ''data'') (\<lambda>d.
      bind_exn (py_getitem d ''object'') (\<lambda>ob. py_getitem ob ''customer_email'')) =
      Inr (JStr em) \<and>
    (\<exists>u\<in>set store. email u = em) \<longrightarrow>
      fst (stripe_webhook (Inr event) store) = 200 \<and>
      (\<exists>i<length store. email (store ! i) = em \<and> (\<forall>j<i. email (store ! j) \<noteq> em) \<and>
         snd (stripe_webhook (Inr event) store) = store[i := (store ! i)\<lparr>is_premium := False\<rparr>] \<and>
         \<not> is_premium (snd (stripe_webhook (Inr event) store) ! i) \<and>
         premium_expires (snd (stripe_webhook (Inr event) store) ! i) = premium_expires (store ! i) \<and>
         searches_today (snd (stripe_webhook (Inr event) store) ! i) = searches_today (store ! i) \<and>
         last_search_reset (snd (stripe_webhook (Inr event) store) ! i) =
           last_search_reset (store ! i))) \<and>
   (\<forall>ty. py_getitem event ''type'' = Inr ty \<and> ty \<noteq> JStr ''customer.subscription.deleted'' \<longrightarrow>
      stripe_webhook (Inr event) store = (200, store))"
proof (intro conjI impI allI)
  assume a: "py_getitem event ''type'' = Inr (JStr ''customer.subscription.deleted'') \<and>
    bind_exn (py_getitem event ''data'') (\<lambda>d.
      bind_exn (py_getitem d ''object'') (\<lambda>ob. py_getitem ob ''customer_email'')) =
      Inr (JStr em) \<and>
    (\<exists>u\<in>set store. email u = em)"
  then have w: "stripe_webhook (Inr event) store = (200, cancel_premium em store)"
    by (simp add: stripe_webhook_def)
  then show "fst (stripe_webhook (Inr event) store) = 200" by simp
  from a have "\<exists>u\<in>set store. email u = em" by simp
  from cancel_premium_first [OF this] obtain i where i: "i < length store"
    "email (store ! i) = em" "\<forall>j<i. email (store ! j) \<noteq> em"
    "cancel_premium em store = store[i := (store ! i)\<lparr>is_premium := False\<rparr>]"
    by blast
  have "i < length store \<and> email (store ! i) = em \<and> (\<forall>j<i. email (store ! j) \<noteq> em) \<and>
         snd (stripe_webhook (Inr event) store) = store[i := (store ! i)\<lparr>is_premium := False\<rparr>] \<and>
         \<not> is_premium (snd (stripe_webhook (Inr event) store) ! i) \<and>
         premium_expires (snd (stripe_webhook (Inr event) store) ! i) = premium_expires (store ! i) \<and>
         searches_today (snd (stripe_webhook (Inr event) store) ! i) = searches_today (store ! i) \<and>
         last_search_reset (snd (stripe_webhook (Inr event) store) ! i) =
           last_search_reset (store ! i)"
    using i by (simp add: w)
  then show "\<exists>i<length store. email (store ! i) = em \<and> (\<forall>j<i. email (store ! j) \<noteq> em) \<and>
         snd (stripe_webhook (Inr event) store) = store[i := (store ! i)\<lparr>is_premium := False\<rparr>] \<and>
         \<not> is_premium (snd (stripe_webhook (Inr event) store) ! i) \<and>
         premium_expires (snd (stripe_webhook (Inr event) store) ! i) = premium_expires (store ! i) \<and>
         searches_today (snd (stripe_webhook (Inr event) store) ! i) = searches_today (store ! i) \<and>
         last_search_reset (snd (stripe_webhook (Inr event) store) ! i) =
           last_search_reset (store ! i)"
    by blast
next
  fix ty
  assume "py_getitem event ''type'' = Inr ty \<and> ty \<noteq> JStr ''customer.subscription.deleted''"
  then show "stripe_webhook (Inr event) store = (200, store)"
    by (simp add: stripe_webhook_def)
qed

text \<open>
  A table of two accounts, the second one premium with 3 searches: cancelling its
  subscription clears its flag and nothing else; an event of the type
  \<open>invoice.paid\<close> for the same email changes nothing.
\<close>

theorem stripe_webhook_cancel_witness:
  "stripe_webhook
     (Inr (example_event ''customer.subscription.deleted'' ''ada@example.org''))
     [example_user False None 1 50 \<lparr>email := ''bob@example.org''\<rparr>,
      example_user True (Some 900) 3 50] =
   (200, [example_user False None 1 50 \<lparr>email := ''bob@example.org''\<rparr>,
          example_user False (Some 900) 3 50]) \<and>
   stripe_webhook (Inr (example_event ''invoice.paid'' ''ada@example.org''))
     [example_user False None 1 50 \<lparr>email := ''bob@example.org''\<rparr>,
      example_user True (Some 900) 3 50] =
   (200, [example_user False None 1 50 \<lparr>email := ''bob@example.org''\<rparr>,
          example_user True (Some 900) 3 50])"
proof -
  let ?store = "[example_user False None 1 50 \<lparr>email := ''bob@example.org''\<rparr>,
                 example_user True (Some 900) 3 50]"
  let ?del = "example_event ''customer.subscription.deleted'' ''ada@example.org''"
  let ?paid = "example_event ''invoice.paid'' ''ada@example.org''"
  have ty: "py_getitem ?del ''type'' = Inr (JStr ''customer.subscription.deleted'')"
    by (simp add: py_getitem_def example_event_def)
  have em: "bind_exn (py_getitem ?del ''data'') (\<lambda>d.
      bind_exn (py_getitem d ''object'') (\<lambda>ob. py_getitem ob ''customer_email'')) =
      Inr (JStr ''ada@example.org'')"
    by (simp add: py_getitem_def bind_exn_def example_event_def)
  have ex: "\<exists>u\<in>set ?store. email u = ''ada@example.org''"
    by (simp add: example_user_def)
  from stripe_webhook_cancel [of ?del "''ada@example.org''" ?store] ty em ex
  obtain i where i: "i < length ?store" "email (?store ! i) = ''ada@example.org''"
    "snd (stripe_webhook (Inr ?del) ?store) = ?store[i := (?store ! i)\<lparr>is_premium := False\<rparr>]"
    and f: "fst (stripe_webhook (Inr ?del) ?store) = 200"
    by blast
  from i(1,2) have "i = 1"
    by (cases i) (simp_all add: example_user_def)
  with i(3) f have a: "stripe_webhook (Inr ?del) ?store =
      (200, [example_user False None 1 50 \<lparr>email := ''bob@example.org''\<rparr>,
             example_user False (Some 900) 3 50])"
    by (simp add: prod_eq_iff example_user_def)
  have ty': "py_getitem ?paid ''type'' = Inr (JStr ''invoice.paid'')"
    by (simp add: py_getitem_def example_event_def)
  from stripe_webhook_cancel [of ?paid "''ada@example.org''" ?store] ty'
  have b: "stripe_webhook (Inr ?paid) ?store = (200, ?store)"
    by simp
  from a b show ?thesis by simp
qed

section \<open>Premium accounts have an expiry\<close>

text \<open>
  C10. Every account of a table that the handlers can produce from the empty table
  (\<open>signup\<close> adds an account that is not premium, \<open>payment_success\<close> sets the flag
  together with an expiry, the webhook only clears the flag, \<open>search\<close> changes neither)
  has an expiry whenever its premium flag is set; on such an account neither
  \<open>can_search\<close> nor \<open>increment_search\<close> raises, at any reading of the clock.
\<close>

theorem reachable_premium_has_expiry:
  assumes "reachable store" and "u \<in> set store"
  shows "(is_premium u \<longrightarrow> premium_expires u \<noteq> None) \<and>
         (\<forall>t1 t2 t3. \<exists>b. fst (can_search t1 t2 t3 u) = Inr b) \<and>
         (\<forall>t. \<exists>u'. increment_search t u = Inr u')"
proof -
  have inv: "is_premium u \<longrightarrow> premium_expires u \<noteq> None"
    using reachable_expiry [OF assms] by blast
  from expiry_no_raise [OF inv] inv show ?thesis by blast
qed

text \<open>
  The table after a signup and a payment: the one account is premium with the expiry
  30 days after the payment, and neither operation raises on it.
\<close>

theorem reachable_premium_has_expiry_witness:
  "reachable [payment_success 100 (example_user False None 0 50)] \<and>
   premium_expires (payment_success 100 (example_user False None 0 50)) = Some 2592000000100 \<and>
   (\<exists>b. fst (can_search 200 200 200 (payment_success 100 (example_user False None 0 50))) = Inr b) \<and>
   (\<exists>u'. increment_search 200 (payment_success 100 (example_user False None 0 50)) = Inr u')"
proof -
  let ?new = "example_user False None 0 50"
  have s: "snd (signup ''ada@example.org'' ''h'' 50 0 []) = [?new]"
    by (simp add: signup_def example_user_def)
  have "reachable (snd (signup ''ada@example.org'' ''h'' 50 0 []))"
    by (rule reachable.signup) (rule reachable.empty)
  then have r0: "reachable [?new]"
    by (simp only: s)
  have "reachable ([?new][0 := payment_success 100 ([?new] ! 0)])"
    by (rule reachable.payment_success [OF r0]) simp
  then have r1: "reachable [payment_success 100 ?new]"
    by simp
  have e: "premium_expires (payment_success 100 ?new) = Some 2592000000100"
    by (simp add: payment_success_def timedelta_days_def example_user_def)
  from reachable_premium_has_expiry [OF r1, of "payment_success 100 ?new"] r1 e
  show ?thesis by simp
qed

end
